theory Spec2Isabelle
  imports Complex_Main "HOL-Library.Word" "HOL-Library.Signed_Division"
begin

section \<open>Scroll pagination with retrying requests: a shallow embedding\<close>

text \<open>
  The repository holds several drafts of one program: a client that opens a scroll
  session against a search engine, pages through it, writes one field of every record
  to a file and releases the cursor.  Three drafts are embedded here, each from its own
  source file:
  \<^item> the refactored program (\<^verbatim>\<open>refactored/main.go\<close>): \<open>executeSearch\<close>,
    \<open>retryWithBackoff\<close>, \<open>parseSearchResponse\<close>, \<open>processHits\<close>, \<open>clearScroll\<close>;
  \<^item> the modular program (\<^verbatim>\<open>main.go\<close> with \<^verbatim>\<open>client/elasticsearch.go\<close> and
    \<^verbatim>\<open>processor/processor.go\<close>): \<open>InitialSearch\<close>, \<open>Scroll\<close>, \<open>ClearScroll\<close>,
    \<open>parseScrollResponse\<close>, \<open>ProcessHits\<close> and its \<open>main\<close>;
  \<^item> the first monolithic program (one \<open>main\<close> with its own \<open>processHits\<close>).
  Names of the modular program that clash with the refactored one carry the suffix
  \<open>_mod\<close>, those of the monolithic program the suffix \<open>_mono\<close>.
\<close>

subsection \<open>Decoded JSON\<close>

text \<open>
  What \<^verbatim>\<open>encoding/json\<close> decodes into an \<^verbatim>\<open>interface{}\<close>: \<^verbatim>\<open>nil\<close>, \<^verbatim>\<open>bool\<close>,
  \<^verbatim>\<open>float64\<close>, \<^verbatim>\<open>string\<close>, \<^verbatim>\<open>[]interface{}\<close> and \<^verbatim>\<open>map[string]interface{}\<close>.
  A number is kept as the rational it denotes (every finite \<^verbatim>\<open>float64\<close> is one); a map
  is an association list read with \<open>map_of\<close>.
\<close>

datatype json =
    JNull
  | JBool bool
  | JNum rat
  | JStr string
  | JArr "json list"
  | JObj "(string \<times> json) list"

text \<open>Go's \<^verbatim>\<open>int\<close> on a 64-bit platform; \<open>sint\<close> reads its value.\<close>

type_synonym go_int = "64 word"

text \<open>
  The conversion \<^verbatim>\<open>int(f)\<close> of a \<^verbatim>\<open>float64\<close>: the fraction is discarded (towards
  zero).  Outside the range of \<^verbatim>\<open>int\<close> Go leaves the result to the implementation;
  the value here is the one of amd64, the smallest \<^verbatim>\<open>int\<close>.
\<close>

definition truncate_rat :: "rat \<Rightarrow> int" where
  "truncate_rat r = (if 0 \<le> r then \<lfloor>r\<rfloor> else \<lceil>r\<rceil>)"

definition int_of_float64 :: "rat \<Rightarrow> go_int" where
  "int_of_float64 r =
     (let t = truncate_rat r
      in if - (2 ^ 63) \<le> t \<and> t < 2 ^ 63 then word_of_int t else word_of_int (- (2 ^ 63)))"

text \<open>
  \<^verbatim>\<open>json.NewDecoder(body).Decode(&raw)\<close> with \<^verbatim>\<open>raw\<close> a \<^verbatim>\<open>map[string]interface{}\<close>.
  A body is \<open>None\<close> when it is not JSON text.  The literal \<^verbatim>\<open>null\<close> leaves the map
  \<^verbatim>\<open>nil\<close> (every lookup misses) without an error; any other value that is not an
  object is a decoding error.
\<close>

definition Decode :: "json option \<Rightarrow> (string \<times> json) list option" where
  "Decode body =
     (case body of
        None \<Rightarrow> None
      | Some JNull \<Rightarrow> Some []
      | Some (JObj m) \<Rightarrow> Some m
      | Some _ \<Rightarrow> None)"

subsection \<open>Errors, log lines, process exits\<close>

text \<open>One constructor for each place where the sources build an error value.\<close>

datatype error =
    TransportError                \<comment> \<open>the \<^verbatim>\<open>err\<close> of the engine client: no response\<close>
  | ContextCanceled               \<comment> \<open>\<^verbatim>\<open>ctx.Err()\<close>\<close>
  | ResponseError                 \<comment> \<open>\<^verbatim>\<open>errors.New(res.String())\<close>\<close>
  | InitialSearchFailed error     \<comment> \<open>\<^verbatim>\<open>"initial search failed: %w"\<close>\<close>
  | ScrollRequestFailed error     \<comment> \<open>\<^verbatim>\<open>"scroll request failed: %w"\<close>\<close>
  | ScrollResponseError           \<comment> \<open>\<^verbatim>\<open>"scroll response error: %s"\<close>\<close>
  | BodyParseError                \<comment> \<open>\<^verbatim>\<open>"error parsing response body: %w"\<close>\<close>
  | ScrollIDNotFound              \<comment> \<open>\<^verbatim>\<open>"scroll ID not found in response"\<close>\<close>
  | HitsNotFound                  \<comment> \<open>\<^verbatim>\<open>"hits not found in response"\<close>\<close>
  | TotalHitsNotFound             \<comment> \<open>\<^verbatim>\<open>"total hits not found in response"\<close>\<close>
  | TotalHitsValueNotFound        \<comment> \<open>\<^verbatim>\<open>"total hits value not found in response"\<close>\<close>
  | HitsArrayNotFound             \<comment> \<open>\<^verbatim>\<open>"hits array not found in response"\<close>\<close>
  | UnmarshalHitError             \<comment> \<open>\<^verbatim>\<open>"error unmarshaling hit: %w"\<close>\<close>
  | WriteError                    \<comment> \<open>a failed \<^verbatim>\<open>WriteString\<close>, wrapped\<close>
  | ESRequestFailed error         \<comment> \<open>\<^verbatim>\<open>"elasticsearch request failed: %w"\<close>\<close>
  | ESResponseError               \<comment> \<open>\<^verbatim>\<open>"elasticsearch response error: %s"\<close>\<close>
  | SearchResponseError           \<comment> \<open>\<^verbatim>\<open>"search response error"\<close>\<close>

datatype log_entry =
    TotalHitsLine go_int                   \<comment> \<open>\<^verbatim>\<open>"Total hits: %d"\<close>\<close>
  | ContextCancelledLine                   \<comment> \<open>\<^verbatim>\<open>"Context cancelled, stopping scroll"\<close>\<close>
  | NoMoreHitsLine                         \<comment> \<open>\<^verbatim>\<open>"No more hits to process."\<close>\<close>
  | ClearScrollErrorLine error             \<comment> \<open>\<^verbatim>\<open>"Error clearing scroll: %v"\<close>\<close>
  | ClearScrollResponseErrorLine           \<comment> \<open>\<^verbatim>\<open>"Error in clear scroll response: %s"\<close>\<close>
  | TitleNotFoundLine                      \<comment> \<open>\<^verbatim>\<open>"Title field not found in this document."\<close>\<close>
  | MessageNotFoundLine                    \<comment> \<open>\<^verbatim>\<open>"Message field not found in this document."\<close>\<close>
  | ProcessingPageLine go_int go_int       \<comment> \<open>\<^verbatim>\<open>"Processing page %d of %d"\<close>\<close>
  | TotalsLine go_int go_int               \<comment> \<open>\<^verbatim>\<open>"Total hits: %d, Total pages: %d"\<close>\<close>
  | ClearScrollWarningLine error           \<comment> \<open>\<^verbatim>\<open>"Warning: failed to clear scroll: %v"\<close>\<close>
  | RequestErrorLine                       \<comment> \<open>\<^verbatim>\<open>"Error getting response ..."\<close>, \<^verbatim>\<open>"Error during scroll: %s"\<close>\<close>
  | ResponseErrorLine                      \<comment> \<open>\<^verbatim>\<open>"Error in search response: %s"\<close>, \<^verbatim>\<open>"Error in scroll response: %s"\<close>\<close>
  | ProcessBatchLine                       \<comment> \<open>\<^verbatim>\<open>"Process the next batch of Hits"\<close>\<close>
  | CompletedLine                          \<comment> \<open>\<^verbatim>\<open>"Processing completed successfully."\<close>\<close>

text \<open>
  How a \<open>main\<close> ends: it returns, \<^verbatim>\<open>log.Fatalf\<close> stops the process with status 1, or
  an unchecked type assertion panics.
\<close>

datatype fatal =
    InitialSearchFatal            \<comment> \<open>\<^verbatim>\<open>"Failed to execute initial search request"\<close>, \<^verbatim>\<open>"Failed to perform initial search"\<close>\<close>
  | ParseBodyFatal                \<comment> \<open>\<^verbatim>\<open>"Error parsing the response body"\<close>\<close>
  | ScrollIDFatal                 \<comment> \<open>\<^verbatim>\<open>"Error retrieving scroll ID"\<close>\<close>
  | ScrollFatal                   \<comment> \<open>\<^verbatim>\<open>"Failed to execute scroll request"\<close>, \<^verbatim>\<open>"Failed to scroll"\<close>\<close>
  | ParseScrollBodyFatal          \<comment> \<open>\<^verbatim>\<open>"Error parsing the scroll response body"\<close>\<close>
  | WriteFatal                    \<comment> \<open>\<^verbatim>\<open>"Error writing to the file"\<close>, \<^verbatim>\<open>"Failed to process hits"\<close>\<close>
  | ClearScrollFatal              \<comment> \<open>\<^verbatim>\<open>"Error clearing scroll"\<close>\<close>
  | ExecuteSearchFatal error      \<comment> \<open>\<^verbatim>\<open>"Error executing search: %v"\<close>\<close>

datatype exit = Returned | Fatal fatal | Panic

subsection \<open>The world of a run\<close>

text \<open>
  A request to the engine and what the client hands back for it: no response at all
  (\<^verbatim>\<open>err != nil\<close>), or a response with its \<^verbatim>\<open>IsError()\<close> flag and its body.
\<close>

datatype request =
    SearchReq string string go_int int     \<comment> \<open>index, query body, size, scroll duration\<close>
  | ScrollReq string int                   \<comment> \<open>scroll id, scroll duration\<close>
  | ClearScrollReq string                  \<comment> \<open>scroll id\<close>

datatype response = Resp (IsError: bool) (Body: "json option")

datatype reply =
    NoResponse
  | Response response

text \<open>
  A run is determined by what its surroundings do, written as finite scripts:
  \<^item> \<open>replies\<close>: the engine's answers, one for each request in the order the requests are
    made; once the script is used up the engine is out of reach (\<open>NoResponse\<close>);
  \<^item> \<open>budgets\<close>: for each call of \<^verbatim>\<open>backoff.Retry\<close>, the number of waits its
    elapsed-time budget pays for before \<^verbatim>\<open>NextBackOff\<close> says \<^verbatim>\<open>Stop\<close> (the wall
    clock decides that number, not the program); none once the script is used up;
  \<^item> \<open>ctx_live\<close>: \<open>Some n\<close> when a cancellable context is cancelled after the program
    has looked at it \<open>n\<close> more times, \<open>None\<close> when it is never cancelled (a context once
    cancelled stays so);
  \<^item> \<open>room\<close>: \<open>Some n\<close> when the output file takes \<open>n\<close> more writes and then fails,
    \<open>None\<close> when it never fails.
  What the run does to its surroundings is recorded beside them: the \<open>requests\<close> made,
  the strings \<open>written\<close> to the file, the lines \<open>logged\<close>, all oldest first.
\<close>

record world =
  replies :: "reply list"
  budgets :: "nat list"
  ctx_live :: "nat option"
  room :: "nat option"
  requests :: "request list"
  written :: "string list"
  logged :: "log_entry list"

datatype Context = Background | WithCancel

text \<open>\<^verbatim>\<open>ctx.Err() != nil\<close>.  The background context is never cancelled.\<close>

definition ctx_Err :: "Context \<Rightarrow> world \<Rightarrow> bool \<times> world" where
  "ctx_Err ctx w =
     (case ctx of
        Background \<Rightarrow> (False, w)
      | WithCancel \<Rightarrow>
          (case ctx_live w of
             None \<Rightarrow> (False, w)
           | Some 0 \<Rightarrow> (True, w)
           | Some (Suc n) \<Rightarrow> (False, w\<lparr>ctx_live := Some n\<rparr>)))"

text \<open>One request through the engine client (\<^verbatim>\<open>es.Search\<close>, \<^verbatim>\<open>es.Scroll\<close>, \<^verbatim>\<open>es.ClearScroll\<close>).\<close>

definition send :: "request \<Rightarrow> world \<Rightarrow> reply \<times> world" where
  "send rq w =
     (case replies w of
        [] \<Rightarrow> (NoResponse, w\<lparr>requests := requests w @ [rq]\<rparr>)
      | r # rs \<Rightarrow> (r, w\<lparr>replies := rs, requests := requests w @ [rq]\<rparr>))"

definition Println :: "log_entry \<Rightarrow> world \<Rightarrow> world" where
  "Println l w = w\<lparr>logged := logged w @ [l]\<rparr>"

text \<open>\<^verbatim>\<open>file.WriteString(s)\<close>: \<open>True\<close> when the write succeeded; a failed write adds nothing.\<close>

definition WriteString :: "string \<Rightarrow> world \<Rightarrow> bool \<times> world" where
  "WriteString s w =
     (case room w of
        None \<Rightarrow> (True, w\<lparr>written := written w @ [s]\<rparr>)
      | Some 0 \<Rightarrow> (False, w)
      | Some (Suc n) \<Rightarrow> (True, w\<lparr>room := Some n, written := written w @ [s]\<rparr>))"

text \<open>The output file takes \<open>k\<close> more writes without failing.\<close>

definition takes :: "world \<Rightarrow> nat \<Rightarrow> bool" where
  "takes w k = (case room w of None \<Rightarrow> True | Some n \<Rightarrow> k \<le> n)"

subsection \<open>The backoff library\<close>

text \<open>
  \<^verbatim>\<open>github.com/cenkalti/backoff/v4\<close> is not part of the repository; what the programs
  use of it is modelled after its version 4.3.0.  Durations are nanoseconds.
\<close>

definition Millisecond :: int where "Millisecond = 1000000"
definition Second :: int where "Second = 1000 * Millisecond"
definition Minute :: int where "Minute = 60 * Second"

record ExponentialBackOff =
  InitialInterval :: int
  RandomizationFactor :: rat
  Multiplier :: rat
  MaxInterval :: int
  MaxElapsedTime :: int

definition NewExponentialBackOff :: ExponentialBackOff where
  "NewExponentialBackOff =
     \<lparr>InitialInterval = 500 * Millisecond, RandomizationFactor = 1 / 2, Multiplier = 3 / 2,
      MaxInterval = 60 * Second, MaxElapsedTime = 15 * Minute\<rparr>"

text \<open>A policy as \<^verbatim>\<open>Retry\<close> receives it: bare, or wrapped by \<^verbatim>\<open>backoff.WithContext\<close>.\<close>

datatype BackOff = Plain ExponentialBackOff | WithContext ExponentialBackOff Context

definition getContext :: "BackOff \<Rightarrow> Context" where
  "getContext b = (case b of Plain _ \<Rightarrow> Background | WithContext _ ctx \<Rightarrow> ctx)"

text \<open>
  The loop of \<^verbatim>\<open>backoff.Retry\<close>, with \<open>n\<close> the waits the elapsed-time budget still pays
  for.  After a failed attempt \<^verbatim>\<open>NextBackOff\<close> is asked: the context wrapper answers
  \<^verbatim>\<open>Stop\<close> when the context is done, the exponential policy when the budget is spent.
  On \<^verbatim>\<open>Stop\<close> the context's error wins over the operation's.  Otherwise the loop
  waits for the timer or the context, whichever comes first, and gives up with the
  context's error in the second case.
\<close>

fun retry_loop ::
  "Context \<Rightarrow> (world \<Rightarrow> (error + 'a) \<times> world) \<Rightarrow> nat \<Rightarrow> world \<Rightarrow> (error + 'a) \<times> world" where
  "retry_loop ctx operation 0 w =
     (case operation w of
        (Inr r, w1) \<Rightarrow> (Inr r, w1)
      | (Inl e, w1) \<Rightarrow>
          (case ctx_Err ctx w1 of
             (True, w2) \<Rightarrow> (Inl ContextCanceled, w2)
           | (False, w2) \<Rightarrow>
               (case ctx_Err ctx w2 of
                  (True, w3) \<Rightarrow> (Inl ContextCanceled, w3)
                | (False, w3) \<Rightarrow> (Inl e, w3))))"
| "retry_loop ctx operation (Suc n) w =
     (case operation w of
        (Inr r, w1) \<Rightarrow> (Inr r, w1)
      | (Inl e, w1) \<Rightarrow>
          (case ctx_Err ctx w1 of
             (True, w2) \<Rightarrow> (Inl ContextCanceled, w2)
           | (False, w2) \<Rightarrow>
               (case ctx_Err ctx w2 of
                  (True, w3) \<Rightarrow> (Inl ContextCanceled, w3)
                | (False, w3) \<Rightarrow> retry_loop ctx operation n w3)))"

text \<open>\<^verbatim>\<open>backoff.Retry(operation, b)\<close>: the policy is reset, which starts a fresh budget.\<close>

definition Retry ::
  "(world \<Rightarrow> (error + 'a) \<times> world) \<Rightarrow> BackOff \<Rightarrow> world \<Rightarrow> (error + 'a) \<times> world" where
  "Retry operation b w =
     (case budgets w of
        [] \<Rightarrow> retry_loop (getContext b) operation 0 w
      | n # ns \<Rightarrow> retry_loop (getContext b) operation n (w\<lparr>budgets := ns\<rparr>))"

subsection \<open>The refactored program\<close>

record Config =
  ElasticsearchURL :: string
  IndexName :: string
  QueryFile :: string
  OutputFile :: string
  BatchSize :: go_int
  ScrollDuration :: int
  InsecureTLS :: bool

record Source =
  Title :: string

record Hit =
  Source :: Source

record SearchResult =
  ScrollID :: string
  TotalHits :: go_int
  Hits :: "Hit list"

text \<open>
  The policy built in \<open>retryWithBackoff\<close>: the library's default with three fields
  overwritten.
\<close>

definition backoffCfg :: ExponentialBackOff where
  "backoffCfg =
     NewExponentialBackOff
       \<lparr>InitialInterval := 1 * Second, MaxInterval := 30 * Second, MaxElapsedTime := 5 * Minute\<rparr>"

text \<open>The closure \<open>operation\<close> of \<open>retryWithBackoff\<close>; \<open>fn\<close> makes the request.\<close>

definition operation :: "(world \<Rightarrow> reply \<times> world) \<Rightarrow> world \<Rightarrow> (error + response) \<times> world" where
  "operation fn w =
     (case fn w of
        (NoResponse, w1) \<Rightarrow> (Inl TransportError, w1)
      | (Response res, w1) \<Rightarrow>
          if IsError res then (Inl ResponseError, w1) else (Inr res, w1))"

definition retryWithBackoff ::
  "Context \<Rightarrow> (world \<Rightarrow> reply \<times> world) \<Rightarrow> world \<Rightarrow> (error + response) \<times> world" where
  "retryWithBackoff ctx fn w = Retry (operation fn) (WithContext backoffCfg ctx) w"

definition extractTotalHits :: "(string \<times> json) list \<Rightarrow> error + go_int" where
  "extractTotalHits raw =
     (case map_of raw ''hits'' of
        Some (JObj hitsObj) \<Rightarrow>
          (case map_of hitsObj ''total'' of
             Some (JObj totalObj) \<Rightarrow>
               (case map_of totalObj ''value'' of
                  Some (JNum totalHits) \<Rightarrow> Inr (int_of_float64 totalHits)
                | _ \<Rightarrow> Inl TotalHitsValueNotFound)
           | _ \<Rightarrow> Inl TotalHitsNotFound)
      | _ \<Rightarrow> Inl HitsNotFound)"

text \<open>
  \<^verbatim>\<open>json.Marshal(h)\<close> followed by \<^verbatim>\<open>json.Unmarshal(hitBytes, &hit)\<close> into the struct
  \<open>Hit\<close>.  Marshalling a decoded value cannot fail.  Unmarshalling leaves a field at
  its zero value when its key is missing or \<^verbatim>\<open>null\<close>, ignores other keys, and fails
  when a value has the wrong JSON type.  Keys are matched as spelled (the library also
  accepts a key that differs in letter case only).
\<close>

definition unmarshal_Source :: "json \<Rightarrow> Source option" where
  "unmarshal_Source j =
     (case j of
        JNull \<Rightarrow> Some \<lparr>Title = []\<rparr>
      | JObj m \<Rightarrow>
          (case map_of m ''title'' of
             None \<Rightarrow> Some \<lparr>Title = []\<rparr>
           | Some JNull \<Rightarrow> Some \<lparr>Title = []\<rparr>
           | Some (JStr t) \<Rightarrow> Some \<lparr>Title = t\<rparr>
           | Some _ \<Rightarrow> None)
      | _ \<Rightarrow> None)"

definition unmarshal_Hit :: "json \<Rightarrow> Hit option" where
  "unmarshal_Hit h =
     (case h of
        JNull \<Rightarrow> Some \<lparr>Source = \<lparr>Title = []\<rparr>\<rparr>
      | JObj m \<Rightarrow>
          (case map_of m ''_source'' of
             None \<Rightarrow> Some \<lparr>Source = \<lparr>Title = []\<rparr>\<rparr>
           | Some s \<Rightarrow>
               (case unmarshal_Source s of
                  None \<Rightarrow> None
                | Some src \<Rightarrow> Some \<lparr>Source = src\<rparr>))
      | _ \<Rightarrow> None)"

text \<open>The loop of \<open>extractHits\<close> over the array, appending to \<open>hits\<close>.\<close>

fun extractHits_loop :: "json list \<Rightarrow> Hit list \<Rightarrow> error + Hit list" where
  "extractHits_loop [] hits = Inr hits"
| "extractHits_loop (h # hitsArray) hits =
     (case unmarshal_Hit h of
        None \<Rightarrow> Inl UnmarshalHitError
      | Some hit \<Rightarrow> extractHits_loop hitsArray (hits @ [hit]))"

definition extractHits :: "(string \<times> json) list \<Rightarrow> error + Hit list" where
  "extractHits raw =
     (case map_of raw ''hits'' of
        Some (JObj hitsObj) \<Rightarrow>
          (case map_of hitsObj ''hits'' of
             Some (JArr hitsArray) \<Rightarrow> extractHits_loop hitsArray []
           | _ \<Rightarrow> Inl HitsArrayNotFound)
      | _ \<Rightarrow> Inl HitsNotFound)"

definition parseSearchResponse :: "response \<Rightarrow> error + SearchResult" where
  "parseSearchResponse res =
     (case Decode (Body res) of
        None \<Rightarrow> Inl BodyParseError
      | Some raw \<Rightarrow>
          (case map_of raw ''_scroll_id'' of
             Some (JStr scrollID) \<Rightarrow>
               (case extractTotalHits raw of
                  Inl err \<Rightarrow> Inl err
                | Inr totalHits \<Rightarrow>
                    (case extractHits raw of
                       Inl err \<Rightarrow> Inl err
                     | Inr hits \<Rightarrow>
                         Inr \<lparr>ScrollID = scrollID, TotalHits = totalHits, Hits = hits\<rparr>))
           | _ \<Rightarrow> Inl ScrollIDNotFound))"

text \<open>\<^verbatim>\<open>fmt.Sprintf("%s\\n", s)\<close> for a string \<open>s\<close>.\<close>

definition line :: "string \<Rightarrow> string" where
  "line s = s @ [CHR 0x0A]"

fun processHits :: "Hit list \<Rightarrow> world \<Rightarrow> error option \<times> world" where
  "processHits [] w = (None, w)"
| "processHits (hit # hits) w =
     (if Title (Source hit) \<noteq> [] then
        (case WriteString (line (Title (Source hit))) w of
           (False, w1) \<Rightarrow> (Some WriteError, w1)
         | (True, w1) \<Rightarrow> processHits hits w1)
      else processHits hits (Println TitleNotFoundLine w))"

definition clearScroll :: "Context \<Rightarrow> string \<Rightarrow> world \<Rightarrow> error option \<times> world" where
  "clearScroll ctx scrollID w =
     (case send (ClearScrollReq scrollID) w of
        (NoResponse, w1) \<Rightarrow> (Some TransportError, w1)
      | (Response res, w1) \<Rightarrow>
          if IsError res then (None, Println ClearScrollResponseErrorLine w1) else (None, w1))"

text \<open>
  Only \<open>send\<close> reads the engine's script, and a response uses one entry of it: the
  measure under which the paging loops below end.
\<close>

lemma replies_ctx_Err [simp]: "replies (snd (ctx_Err ctx w)) = replies w"
  by (simp add: ctx_Err_def split: Context.splits option.splits nat.splits)

lemma replies_Println [simp]: "replies (Println l w) = replies w"
  by (simp add: Println_def)

lemma replies_WriteString [simp]: "replies (snd (WriteString s w)) = replies w"
  by (simp add: WriteString_def split: option.splits nat.splits)

lemma replies_send_le: "length (replies (snd (send rq w))) \<le> length (replies w)"
  by (simp add: send_def split: list.splits)

lemma replies_send_Response:
  "send rq w = (Response res, w1) \<Longrightarrow> length (replies w1) < length (replies w)"
  by (auto simp: send_def split: list.splits)

lemma replies_processHits [simp]: "replies (snd (processHits hits w)) = replies w"
proof (induction hits arbitrary: w)
  case Nil
  show ?case by simp
next
  case (Cons hit hits)
  show ?case
  proof (cases "WriteString (line (Title (Source hit))) w")
    case (Pair ok w1)
    have "replies (snd (WriteString (line (Title (Source hit))) w)) = replies w"
      by simp
    with Pair have r: "replies w1 = replies w"
      by simp
    show ?thesis
      using Pair r Cons.IH [of w1] Cons.IH [of "Println TitleNotFoundLine w"]
      by (cases ok) auto
  qed
qed

text \<open>
  The \<^verbatim>\<open>for\<close> loop of \<open>executeSearch\<close>.  \<open>Inl err\<close> is a \<^verbatim>\<open>return err\<close> from
  inside the loop, \<open>Inr scrollID\<close> a \<^verbatim>\<open>break\<close> with the scroll id then held.
\<close>

function scroll_loop :: "Context \<Rightarrow> Config \<Rightarrow> string \<Rightarrow> world \<Rightarrow> (error + string) \<times> world" where
  "scroll_loop ctx cfg scrollID w =
     (case ctx_Err ctx w of
        (True, w1) \<Rightarrow> (Inr scrollID, Println ContextCancelledLine w1)
      | (False, w1) \<Rightarrow>
          (case send (ScrollReq scrollID (ScrollDuration cfg)) w1 of
             (NoResponse, w2) \<Rightarrow> (Inl (ScrollRequestFailed TransportError), w2)
           | (Response res, w2) \<Rightarrow>
               if IsError res then (Inl ScrollResponseError, w2)
               else
                 (case parseSearchResponse res of
                    Inl err \<Rightarrow> (Inl err, w2)
                  | Inr result \<Rightarrow>
                      if length (Hits result) = 0 then (Inr scrollID, Println NoMoreHitsLine w2)
                      else
                        (case processHits (Hits result) w2 of
                           (Some err, w3) \<Rightarrow> (Inl err, w3)
                         | (None, w3) \<Rightarrow> scroll_loop ctx cfg (ScrollID result) w3))))"
  by pat_completeness auto
termination
proof (relation "measure (\<lambda>(ctx, cfg, scrollID, w). length (replies w))", goal_cases)
  case 1
  show ?case by simp
next
  case (2 ctx cfg scrollID w x1 w1 x2 w2 res result x3 w3)
  have "replies (snd (ctx_Err ctx w)) = replies w"
    by simp
  with 2(1) have "replies w1 = replies w"
    by (metis snd_conv)
  moreover have "length (replies w2) < length (replies w1)"
    using 2(3,4) replies_send_Response [of "ScrollReq scrollID (ScrollDuration cfg)" w1 res w2]
    by simp
  moreover have "replies (snd (processHits (Hits result) w2)) = replies w2"
    by simp
  with 2(8) have "replies w3 = replies w2"
    by (metis snd_conv)
  ultimately show ?case by simp
qed

declare scroll_loop.simps [simp del]

text \<open>
  \<open>executeSearch\<close> from its loop to its \<^verbatim>\<open>return nil\<close>: the loop, then the scroll
  context is cleared; a failure there is logged and nothing more.
\<close>

definition scroll_and_clear :: "Context \<Rightarrow> Config \<Rightarrow> string \<Rightarrow> world \<Rightarrow> error option \<times> world" where
  "scroll_and_clear ctx cfg scrollID0 w =
     (case scroll_loop ctx cfg scrollID0 w of
        (Inl err, w1) \<Rightarrow> (Some err, w1)
      | (Inr scrollID, w1) \<Rightarrow>
          (case clearScroll ctx scrollID w1 of
             (Some err, w2) \<Rightarrow> (None, Println (ClearScrollErrorLine err) w2)
           | (None, w2) \<Rightarrow> (None, w2)))"

definition executeSearch :: "Context \<Rightarrow> string \<Rightarrow> Config \<Rightarrow> world \<Rightarrow> error option \<times> world" where
  "executeSearch ctx query cfg w =
     (case retryWithBackoff ctx
             (send (SearchReq (IndexName cfg) query (BatchSize cfg) (ScrollDuration cfg))) w of
        (Inl err, w1) \<Rightarrow> (Some (InitialSearchFailed err), w1)
      | (Inr res, w1) \<Rightarrow>
          (case parseSearchResponse res of
             Inl err \<Rightarrow> (Some err, w1)
           | Inr result \<Rightarrow>
               (case processHits (Hits result) (Println (TotalHitsLine (TotalHits result)) w1) of
                  (Some err, w2) \<Rightarrow> (Some err, w2)
                | (None, w2) \<Rightarrow> scroll_and_clear ctx cfg (ScrollID result) w2)))"

text \<open>
  \<open>main\<close> of the refactored program, from the call of \<open>executeSearch\<close> on (the
  client, the query and the output file exist).  The context is the cancellable one
  that the signal handler cancels.
\<close>

definition main :: "string \<Rightarrow> Config \<Rightarrow> world \<Rightarrow> exit \<times> world" where
  "main query cfg w =
     (case executeSearch WithCancel query cfg w of
        (Some err, w1) \<Rightarrow> (Fatal (ExecuteSearchFatal err), w1)
      | (None, w1) \<Rightarrow> (Returned, Println CompletedLine w1))"

subsection \<open>Go arithmetic and formatting shared by the other two programs\<close>

text \<open>
  \<^verbatim>\<open>a / b\<close> on \<^verbatim>\<open>int\<close>: the quotient truncated towards zero, wrapped to 64 bits.
  The caller checks \<open>b \<noteq> 0\<close> (Go panics there).
\<close>

definition go_div :: "go_int \<Rightarrow> go_int \<Rightarrow> go_int" where
  "go_div a b = word_of_int (sint a sdiv sint b)"

text \<open>
  \<^verbatim>\<open>totalPages := (totalHits + batchSize - 1) / batchSize\<close>, as both programs compute
  it; \<open>None\<close> is the panic of a division by zero.
\<close>

definition totalPages :: "go_int \<Rightarrow> go_int \<Rightarrow> go_int option" where
  "totalPages totalHits batchSize =
     (if batchSize = 0 then None else Some (go_div (totalHits + batchSize - 1) batchSize))"

text \<open>
  \<^verbatim>\<open>fmt.Sprintf("%s\\n", message)\<close> for a decoded value: a string is printed as it
  is.  For any other value \<^verbatim>\<open>fmt\<close> prints its bad-verb form (\<^verbatim>\<open>%!s(...)\<close>), which
  is left to the parameter \<open>bad_verb\<close>.
\<close>

definition Sprintf_line :: "(json \<Rightarrow> string) \<Rightarrow> json \<Rightarrow> string" where
  "Sprintf_line bad_verb message =
     (case message of JStr s \<Rightarrow> line s | _ \<Rightarrow> line (bad_verb message))"

text \<open>What a function that may panic hands back.\<close>

datatype 'a result = Value 'a | Error error | Panics

text \<open>
  The closures given to \<^verbatim>\<open>backoff.Retry\<close> never shorten the budget of replies they
  did not use, and hand back a response only by using one.
\<close>

lemma retry_loop_replies:
  assumes ok: "\<And>w r w'. attempt w = (Inr r, w') \<Longrightarrow> length (replies w') < length (replies w)"
    and le: "\<And>w. length (replies (snd (attempt w))) \<le> length (replies w)"
  shows "retry_loop ctx attempt n w = (Inr r, w') \<Longrightarrow> length (replies w') < length (replies w)"
proof (induction n arbitrary: w)
  case 0
  then show ?case
    by (auto split: prod.splits sum.splits bool.splits dest: ok)
next
  case (Suc n)
  show ?case
  proof (cases "attempt w")
    case (Pair x w1)
    show ?thesis
    proof (cases x)
      case (Inr r1)
      with Pair Suc.prems show ?thesis
        by (auto dest: ok)
    next
      case (Inl e)
      obtain c2 w2 where c2: "ctx_Err ctx w1 = (c2, w2)"
        by (cases "ctx_Err ctx w1")
      obtain c3 w3 where c3: "ctx_Err ctx w2 = (c3, w3)"
        by (cases "ctx_Err ctx w2")
      have "replies (snd (ctx_Err ctx w1)) = replies w1"
        by simp
      with c2 have r2: "replies w2 = replies w1"
        by simp
      have "replies (snd (ctx_Err ctx w2)) = replies w2"
        by simp
      with c3 have r3: "replies w3 = replies w2"
        by simp
      from Pair le [of w] have r1: "length (replies w1) \<le> length (replies w)"
        by simp
      from Suc.prems Pair Inl c2 c3 have "retry_loop ctx attempt n w3 = (Inr r, w')"
        by (cases c2; cases c3) auto
      then have "length (replies w') < length (replies w3)"
        by (rule Suc.IH)
      with r1 r2 r3 show ?thesis
        by simp
    qed
  qed
qed

lemma Retry_replies:
  assumes ok: "\<And>w r w'. attempt w = (Inr r, w') \<Longrightarrow> length (replies w') < length (replies w)"
    and le: "\<And>w. length (replies (snd (attempt w))) \<le> length (replies w)"
    and ret: "Retry attempt b w = (Inr r, w')"
  shows "length (replies w') < length (replies w)"
proof (cases "budgets w")
  case Nil
  with ret have "retry_loop (getContext b) attempt 0 w = (Inr r, w')"
    by (simp add: Retry_def)
  then show ?thesis
    using retry_loop_replies [of attempt "getContext b" 0 w r w'] ok le by blast
next
  case (Cons n ns)
  with ret have "retry_loop (getContext b) attempt n (w\<lparr>budgets := ns\<rparr>) = (Inr r, w')"
    by (simp add: Retry_def)
  then have "length (replies w') < length (replies (w\<lparr>budgets := ns\<rparr>))"
    using retry_loop_replies [of attempt "getContext b" n "w\<lparr>budgets := ns\<rparr>" r w'] ok le by blast
  then show ?thesis
    by simp
qed
subsection \<open>The modular program\<close>

record Config_mod =
  ElasticsearchURL_mod :: string
  BatchSize_mod :: go_int
  ScrollDuration_mod :: int
  OutputPath :: string
  IndexName_mod :: string

definition getEnvWithDefault :: "string \<Rightarrow> string \<Rightarrow> string" where
  "getEnvWithDefault env defaultValue = (if env \<noteq> [] then env else defaultValue)"

text \<open>\<open>NewConfig\<close>; \<open>env\<close> is the value of \<^verbatim>\<open>ELASTICSEARCH_URL\<close> in the environment.\<close>

definition NewConfig :: "string \<Rightarrow> Config_mod" where
  "NewConfig env =
     \<lparr>ElasticsearchURL_mod = getEnvWithDefault env ''http://localhost:9200'',
      BatchSize_mod = 6,
      ScrollDuration_mod = Minute,
      OutputPath = ''/app/data/logs.txt'',
      IndexName_mod = ''sample_data''\<rparr>"

record ESClient =
  scrollDuration :: int
  batchSize :: go_int
  indexName :: string

definition NewESClient :: "int \<Rightarrow> go_int \<Rightarrow> string \<Rightarrow> ESClient" where
  "NewESClient sd bs ix = \<lparr>scrollDuration = sd, batchSize = bs, indexName = ix\<rparr>"

record ScrollResult =
  ScrollID_mod :: string
  Hits_mod :: "(string \<times> json) list list"
  Total :: go_int

definition newBackoffConfig :: ExponentialBackOff where
  "newBackoffConfig =
     NewExponentialBackOff
       \<lparr>InitialInterval := 1 * Second, MaxInterval := 30 * Second, MaxElapsedTime := 5 * Minute\<rparr>"

definition handleESResponse :: "reply \<Rightarrow> error option" where
  "handleESResponse r =
     (case r of
        NoResponse \<Rightarrow> Some (ESRequestFailed TransportError)
      | Response res \<Rightarrow> if IsError res then Some ESResponseError else None)"

text \<open>
  The loop of \<open>parseScrollResponse\<close> over the hits; each type assertion is
  unchecked and panics on a value of another type.
\<close>

fun processedHits :: "json list \<Rightarrow> (string \<times> json) list list option" where
  "processedHits [] = Some []"
| "processedHits (hit # hits) =
     (case hit of
        JObj hitMap \<Rightarrow>
          (case map_of hitMap ''_source'' of
             Some (JObj src) \<Rightarrow>
               (case processedHits hits of None \<Rightarrow> None | Some rest \<Rightarrow> Some (src # rest))
           | _ \<Rightarrow> None)
      | _ \<Rightarrow> None)"

definition parseScrollResponse :: "json option \<Rightarrow> ScrollResult result" where
  "parseScrollResponse body =
     (case Decode body of
        None \<Rightarrow> Error BodyParseError
      | Some result \<Rightarrow>
          (case map_of result ''_scroll_id'' of
             Some (JStr scrollID) \<Rightarrow>
               (case map_of result ''hits'' of
                  Some (JObj hitsObj) \<Rightarrow>
                    (case map_of hitsObj ''total'' of
                       Some (JObj totalObj) \<Rightarrow>
                         (case map_of totalObj ''value'' of
                            Some (JNum total_value) \<Rightarrow>
                              (case map_of hitsObj ''hits'' of
                                 Some (JArr hits) \<Rightarrow>
                                   (case processedHits hits of
                                      None \<Rightarrow> Panics
                                    | Some hs \<Rightarrow>
                                        Value \<lparr>ScrollID_mod = scrollID, Hits_mod = hs,
                                               Total = int_of_float64 total_value\<rparr>)
                               | _ \<Rightarrow> Panics)
                          | _ \<Rightarrow> Panics)
                     | _ \<Rightarrow> Panics)
                | _ \<Rightarrow> Panics)
           | _ \<Rightarrow> Error ScrollIDNotFound))"

text \<open>
  The closure that \<open>InitialSearch\<close> and \<open>Scroll\<close> give to \<^verbatim>\<open>backoff.Retry\<close>:
  \<open>fn\<close> makes the request, \<open>handleESResponse\<close> judges what came back, and the
  captured \<^verbatim>\<open>res\<close> is what the caller reads afterwards.
\<close>

definition attempt_mod :: "(world \<Rightarrow> reply \<times> world) \<Rightarrow> world \<Rightarrow> (error + reply) \<times> world" where
  "attempt_mod fn w =
     (case fn w of
        (r, w1) \<Rightarrow>
          (case handleESResponse r of
             Some err \<Rightarrow> (Inl err, w1)
           | None \<Rightarrow> (Inr r, w1)))"

text \<open>\<^verbatim>\<open>parseScrollResponse(res.Body)\<close>; reading the body of no response would panic.\<close>

definition parse_reply :: "reply \<Rightarrow> ScrollResult result" where
  "parse_reply r =
     (case r of
        NoResponse \<Rightarrow> Panics
      | Response res \<Rightarrow> parseScrollResponse (Body res))"

definition InitialSearch :: "ESClient \<Rightarrow> string \<Rightarrow> world \<Rightarrow> ScrollResult result \<times> world" where
  "InitialSearch c query w =
     (case Retry (attempt_mod (send (SearchReq (indexName c) query (batchSize c) (scrollDuration c))))
             (Plain newBackoffConfig) w of
        (Inl err, w1) \<Rightarrow> (Error (InitialSearchFailed err), w1)
      | (Inr res, w1) \<Rightarrow> (parse_reply res, w1))"

definition Scroll :: "ESClient \<Rightarrow> string \<Rightarrow> world \<Rightarrow> ScrollResult result \<times> world" where
  "Scroll c scrollID w =
     (case Retry (attempt_mod (send (ScrollReq scrollID (scrollDuration c))))
             (Plain newBackoffConfig) w of
        (Inl err, w1) \<Rightarrow> (Error (ScrollRequestFailed err), w1)
      | (Inr res, w1) \<Rightarrow> (parse_reply res, w1))"

definition ClearScroll :: "ESClient \<Rightarrow> string \<Rightarrow> world \<Rightarrow> error option \<times> world" where
  "ClearScroll c scrollID w =
     (case send (ClearScrollReq scrollID) w of
        (NoResponse, w1) \<Rightarrow> (Some TransportError, w1)
      | (Response res, w1) \<Rightarrow> (None, w1))"

fun ProcessHits ::
  "(json \<Rightarrow> string) \<Rightarrow> (string \<times> json) list list \<Rightarrow> world \<Rightarrow> error option \<times> world" where
  "ProcessHits bad_verb [] w = (None, w)"
| "ProcessHits bad_verb (hit # hits) w =
     (case map_of hit ''title'' of
        Some message \<Rightarrow>
          (case WriteString (Sprintf_line bad_verb message) w of
             (False, w1) \<Rightarrow> (Some WriteError, w1)
           | (True, w1) \<Rightarrow> ProcessHits bad_verb hits w1)
      | None \<Rightarrow> ProcessHits bad_verb hits w)"

lemma replies_ProcessHits [simp]: "replies (snd (ProcessHits bad_verb hits w)) = replies w"
proof (induction hits arbitrary: w)
  case Nil
  show ?case by simp
next
  case (Cons hit hits)
  show ?case
  proof (cases "map_of hit ''title''")
    case None
    then show ?thesis
      using Cons.IH [of w] by simp
  next
    case (Some message)
    show ?thesis
    proof (cases "WriteString (Sprintf_line bad_verb message) w")
      case (Pair ok w1)
      have "replies (snd (WriteString (Sprintf_line bad_verb message) w)) = replies w"
        by simp
      with Pair have r: "replies w1 = replies w"
        by simp
      show ?thesis
        using Some Pair r Cons.IH [of w1] by (cases ok) auto
    qed
  qed
qed

lemma attempt_mod_send_Inr:
  "attempt_mod (send rq) w = (Inr r, w') \<Longrightarrow> length (replies w') < length (replies w)"
  by (auto simp: attempt_mod_def handleESResponse_def send_def
      split: prod.splits option.splits reply.splits list.splits if_splits)

lemma attempt_mod_send_le:
  "length (replies (snd (attempt_mod (send rq) w))) \<le> length (replies w)"
  by (auto simp: attempt_mod_def handleESResponse_def send_def
      split: prod.splits option.splits reply.splits list.splits if_splits)

lemma Scroll_Value_replies:
  assumes "Scroll c scrollID w = (Value result, w1)"
  shows "length (replies w1) < length (replies w)"
proof -
  obtain x w' where R: "Retry (attempt_mod (send (ScrollReq scrollID (scrollDuration c))))
             (Plain newBackoffConfig) w = (x, w')"
    by (cases "Retry (attempt_mod (send (ScrollReq scrollID (scrollDuration c))))
             (Plain newBackoffConfig) w")
  show ?thesis
  proof (cases x)
    case (Inl e)
    with R assms show ?thesis
      by (simp add: Scroll_def)
  next
    case (Inr r)
    with R assms have "w1 = w'"
      by (simp add: Scroll_def)
    moreover have "length (replies w') < length (replies w)"
      using Retry_replies [of "attempt_mod (send (ScrollReq scrollID (scrollDuration c)))"
          "Plain newBackoffConfig" w r w'] R Inr attempt_mod_send_Inr attempt_mod_send_le
      by blast
    ultimately show ?thesis
      by simp
  qed
qed

text \<open>
  The \<^verbatim>\<open>for\<close> loop of the modular \<open>main\<close>.  \<open>Inl\<close> is the way the process ends
  inside the loop, \<open>Inr\<close> a \<^verbatim>\<open>break\<close> with the \<^verbatim>\<open>result\<close> then held.
\<close>

function scroll_loop_mod ::
  "(json \<Rightarrow> string) \<Rightarrow> ESClient \<Rightarrow> go_int \<Rightarrow> go_int \<Rightarrow> ScrollResult \<Rightarrow> world
     \<Rightarrow> (exit + ScrollResult) \<times> world" where
  "scroll_loop_mod bad_verb c pages currentPage result w =
     (case Scroll c (ScrollID_mod result)
             (Println (ProcessingPageLine (currentPage + 1) pages) w) of
        (Error err, w1) \<Rightarrow> (Inl (Fatal ScrollFatal), w1)
      | (Panics, w1) \<Rightarrow> (Inl Panic, w1)
      | (Value fetched, w1) \<Rightarrow>
          if length (Hits_mod fetched) = 0 then (Inr fetched, Println NoMoreHitsLine w1)
          else
            (case ProcessHits bad_verb (Hits_mod fetched) w1 of
               (Some err, w2) \<Rightarrow> (Inl (Fatal WriteFatal), w2)
             | (None, w2) \<Rightarrow> scroll_loop_mod bad_verb c pages (currentPage + 1) fetched w2))"
  by pat_completeness auto
termination
proof (relation "measure (\<lambda>(bad_verb, c, pages, currentPage, result, w). length (replies w))",
    goal_cases)
  case 1
  show ?case by simp
next
  case (2 bad_verb c pages currentPage result w x w1 fetched y w2)
  have "length (replies w1) < length (replies (Println (ProcessingPageLine (currentPage + 1) pages) w))"
    using 2(1,2) Scroll_Value_replies [of c "ScrollID_mod result"
        "Println (ProcessingPageLine (currentPage + 1) pages) w" fetched w1]
    by simp
  moreover have "replies (snd (ProcessHits bad_verb (Hits_mod fetched) w1)) = replies w1"
    by simp
  with 2(4) have "replies w2 = replies w1"
    by (metis snd_conv)
  ultimately show ?case by simp
qed


declare scroll_loop_mod.simps [simp del]

text \<open>
  The modular \<open>main\<close> from its loop to its end: the loop, then \<open>ClearScroll\<close> with
  the scroll id of the \<^verbatim>\<open>result\<close> held; a failure there is a warning.
\<close>

definition scroll_and_clear_mod ::
  "(json \<Rightarrow> string) \<Rightarrow> ESClient \<Rightarrow> go_int \<Rightarrow> go_int \<Rightarrow> ScrollResult \<Rightarrow> world \<Rightarrow> exit \<times> world" where
  "scroll_and_clear_mod bad_verb c pages currentPage result w =
     (case scroll_loop_mod bad_verb c pages currentPage result w of
        (Inl ex, w1) \<Rightarrow> (ex, w1)
      | (Inr held, w1) \<Rightarrow>
          (case ClearScroll c (ScrollID_mod held) w1 of
             (Some err, w2) \<Rightarrow> (Returned, Println (ClearScrollWarningLine err) w2)
           | (None, w2) \<Rightarrow> (Returned, w2)))"

text \<open>
  \<open>main\<close> of the modular program from the first search on.  \<open>env\<close> is the value of
  \<^verbatim>\<open>ELASTICSEARCH_URL\<close>, \<open>query\<close> the query text after the placeholder has been
  replaced.  The context is \<^verbatim>\<open>context.Background()\<close>.
\<close>

definition main_mod :: "(json \<Rightarrow> string) \<Rightarrow> string \<Rightarrow> string \<Rightarrow> world \<Rightarrow> exit \<times> world" where
  "main_mod bad_verb env query w =
     (case InitialSearch
             (NewESClient (ScrollDuration_mod (NewConfig env)) (BatchSize_mod (NewConfig env))
                (IndexName_mod (NewConfig env))) query w of
        (Error err, w1) \<Rightarrow> (Fatal InitialSearchFatal, w1)
      | (Panics, w1) \<Rightarrow> (Panic, w1)
      | (Value result, w1) \<Rightarrow>
          (case totalPages (Total result) (BatchSize_mod (NewConfig env)) of
             None \<Rightarrow> (Panic, w1)
           | Some pages \<Rightarrow>
               (case ProcessHits bad_verb (Hits_mod result)
                       (Println (ProcessingPageLine 1 pages) w1) of
                  (Some err, w2) \<Rightarrow> (Fatal WriteFatal, w2)
                | (None, w2) \<Rightarrow>
                    scroll_and_clear_mod bad_verb
                      (NewESClient (ScrollDuration_mod (NewConfig env))
                         (BatchSize_mod (NewConfig env)) (IndexName_mod (NewConfig env)))
                      pages 1 result w2)))"

subsection \<open>The monolithic program\<close>

definition backoffConfig :: ExponentialBackOff where
  "backoffConfig =
     NewExponentialBackOff
       \<lparr>InitialInterval := 1 * Second, MaxInterval := 30 * Second, MaxElapsedTime := 5 * Minute\<rparr>"

text \<open>
  The two closures given to \<^verbatim>\<open>backoff.Retry\<close>; they differ in the request \<open>fn\<close>
  makes and in the error \<open>response_error\<close> built for an error response.
\<close>

definition attempt_mono ::
  "error \<Rightarrow> (world \<Rightarrow> reply \<times> world) \<Rightarrow> world \<Rightarrow> (error + response) \<times> world" where
  "attempt_mono response_error fn w =
     (case fn w of
        (NoResponse, w1) \<Rightarrow> (Inl TransportError, Println RequestErrorLine w1)
      | (Response res, w1) \<Rightarrow>
          if IsError res then (Inl response_error, Println ResponseErrorLine w1)
          else (Inr res, w1))"

text \<open>
  \<^verbatim>\<open>Decode(&result)\<close> into the map of the page before: the library keeps the entries
  whose keys the new object does not have.
\<close>

definition Decode_into :: "(string \<times> json) list \<Rightarrow> json option \<Rightarrow> (string \<times> json) list option" where
  "Decode_into result body =
     (case body of
        None \<Rightarrow> None
      | Some JNull \<Rightarrow> Some result
      | Some (JObj m) \<Rightarrow> Some (m @ result)
      | Some _ \<Rightarrow> None)"

text \<open>
  \<^verbatim>\<open>int(result["hits"].(map[string]interface{})["total"].(map[string]interface{})["value"].(float64))\<close>
  and \<^verbatim>\<open>result["hits"].(map[string]interface{})["hits"].([]interface{})\<close>; \<open>None\<close> is
  the panic of a failed assertion.
\<close>

definition totalHits_mono :: "(string \<times> json) list \<Rightarrow> go_int option" where
  "totalHits_mono result =
     (case map_of result ''hits'' of
        Some (JObj hitsObj) \<Rightarrow>
          (case map_of hitsObj ''total'' of
             Some (JObj totalObj) \<Rightarrow>
               (case map_of totalObj ''value'' of
                  Some (JNum v) \<Rightarrow> Some (int_of_float64 v)
                | _ \<Rightarrow> None)
           | _ \<Rightarrow> None)
      | _ \<Rightarrow> None)"

definition hits_mono :: "(string \<times> json) list \<Rightarrow> json list option" where
  "hits_mono result =
     (case map_of result ''hits'' of
        Some (JObj hitsObj) \<Rightarrow>
          (case map_of hitsObj ''hits'' of
             Some (JArr hits) \<Rightarrow> Some hits
           | _ \<Rightarrow> None)
      | _ \<Rightarrow> None)"

text \<open>The loop of the monolithic \<open>processHits\<close>; \<open>Some\<close> is the way the process ends in it.\<close>

fun processHits_loop_mono :: "(json \<Rightarrow> string) \<Rightarrow> json list \<Rightarrow> world \<Rightarrow> exit option \<times> world" where
  "processHits_loop_mono bad_verb [] w = (None, w)"
| "processHits_loop_mono bad_verb (hit # hits) w =
     (case hit of
        JObj hitMap \<Rightarrow>
          (case map_of hitMap ''_source'' of
             Some (JObj src) \<Rightarrow>
               (case map_of src ''title'' of
                  Some message \<Rightarrow>
                    (case WriteString (Sprintf_line bad_verb message) w of
                       (False, w1) \<Rightarrow> (Some (Fatal WriteFatal), w1)
                     | (True, w1) \<Rightarrow> processHits_loop_mono bad_verb hits w1)
                | None \<Rightarrow> processHits_loop_mono bad_verb hits (Println MessageNotFoundLine w))
           | _ \<Rightarrow> (Some Panic, w))
      | _ \<Rightarrow> (Some Panic, w))"

definition processHits_mono :: "(json \<Rightarrow> string) \<Rightarrow> json list \<Rightarrow> world \<Rightarrow> exit option \<times> world" where
  "processHits_mono bad_verb hits w = processHits_loop_mono bad_verb hits (Println ProcessBatchLine w)"

lemma replies_processHits_loop_mono [simp]:
  "replies (snd (processHits_loop_mono bad_verb hits w)) = replies w"
proof (induction hits arbitrary: w)
  case Nil
  show ?case by simp
next
  case (Cons hit hits)
  have W: "replies (snd (case WriteString s w of
                 (False, w1) \<Rightarrow> (Some (Fatal WriteFatal), w1)
               | (True, w1) \<Rightarrow> processHits_loop_mono bad_verb hits w1)) = replies w" for s
  proof (cases "WriteString s w")
    case (Pair ok w1)
    have "replies (snd (WriteString s w)) = replies w"
      by simp
    with Pair have "replies w1 = replies w"
      by simp
    with Pair Cons.IH [of w1] show ?thesis
      by (cases ok) auto
  qed
  show ?case
    using W Cons.IH [of "Println MessageNotFoundLine w"]
    by (simp split: json.splits option.splits)
qed

lemma replies_processHits_mono [simp]:
  "replies (snd (processHits_mono bad_verb hits w)) = replies w"
  by (simp add: processHits_mono_def)

lemma attempt_mono_send_Inr:
  "attempt_mono e (send rq) w = (Inr r, w') \<Longrightarrow> length (replies w') < length (replies w)"
  by (auto simp: attempt_mono_def send_def split: prod.splits reply.splits list.splits if_splits)

lemma attempt_mono_send_le:
  "length (replies (snd (attempt_mono e (send rq) w))) \<le> length (replies w)"
  by (auto simp: attempt_mono_def send_def split: prod.splits reply.splits list.splits if_splits)

text \<open>
  The \<^verbatim>\<open>for\<close> loop of the monolithic \<open>main\<close>.  \<open>Inl\<close> is the way the process ends
  inside the loop, \<open>Inr scrollID\<close> a \<^verbatim>\<open>break\<close> with the scroll id then held.
\<close>

function scroll_loop_mono ::
  "(json \<Rightarrow> string) \<Rightarrow> go_int \<Rightarrow> go_int \<Rightarrow> string \<Rightarrow> (string \<times> json) list \<Rightarrow> world
     \<Rightarrow> (exit + string) \<times> world" where
  "scroll_loop_mono bad_verb pages currentPage scrollID result w =
     (case Retry (attempt_mono ScrollResponseError (send (ScrollReq scrollID Minute)))
             (Plain backoffConfig)
             (Println (ProcessingPageLine (currentPage + 1) pages) w) of
        (Inl err, w1) \<Rightarrow> (Inl (Fatal ScrollFatal), w1)
      | (Inr res, w1) \<Rightarrow>
          (case Decode_into result (Body res) of
             None \<Rightarrow> (Inl (Fatal ParseScrollBodyFatal), w1)
           | Some decoded \<Rightarrow>
               (case hits_mono decoded of
                  None \<Rightarrow> (Inl Panic, w1)
                | Some hits \<Rightarrow>
                    if length hits = 0 then (Inr scrollID, Println NoMoreHitsLine w1)
                    else
                      (case processHits_mono bad_verb hits
                              (Println (ProcessingPageLine (currentPage + 1) pages) w1) of
                         (Some ex, w2) \<Rightarrow> (Inl ex, w2)
                       | (None, w2) \<Rightarrow>
                           (case map_of decoded ''_scroll_id'' of
                              Some (JStr next_id) \<Rightarrow>
                                scroll_loop_mono bad_verb pages (currentPage + 1) next_id decoded w2
                            | _ \<Rightarrow> (Inl (Fatal ScrollIDFatal), w2))))))"
  by pat_completeness auto
termination
proof (relation "measure (\<lambda>(bad_verb, pages, currentPage, scrollID, result, w). length (replies w))",
    goal_cases)
  case 1
  show ?case by simp
next
  case (2 bad_verb pages currentPage scrollID result w x w1 res decoded hits y w2 z next_id)
  have "length (replies w1) < length (replies (Println (ProcessingPageLine (currentPage + 1) pages) w))"
    using 2(1,2) Retry_replies [of "attempt_mono ScrollResponseError (send (ScrollReq scrollID Minute))"
        "Plain backoffConfig" "Println (ProcessingPageLine (currentPage + 1) pages) w" res w1]
      attempt_mono_send_Inr attempt_mono_send_le
    by (metis (no_types, lifting))
  moreover have "replies (snd (processHits_mono bad_verb hits
      (Println (ProcessingPageLine (currentPage + 1) pages) w1))) = replies w1"
    by simp
  with 2(6) have "replies w2 = replies w1"
    by (metis snd_conv)
  ultimately show ?case by simp
qed

declare scroll_loop_mono.simps [simp del]

text \<open>
  The monolithic \<open>main\<close> from its loop to its end: the loop, then the scroll context
  is cleared, and a failure there is fatal.
\<close>

definition scroll_and_clear_mono ::
  "(json \<Rightarrow> string) \<Rightarrow> go_int \<Rightarrow> go_int \<Rightarrow> string \<Rightarrow> (string \<times> json) list \<Rightarrow> world
     \<Rightarrow> exit \<times> world" where
  "scroll_and_clear_mono bad_verb pages currentPage scrollID0 result w =
     (case scroll_loop_mono bad_verb pages currentPage scrollID0 result w of
        (Inl ex, w1) \<Rightarrow> (ex, w1)
      | (Inr scrollID, w1) \<Rightarrow>
          (case send (ClearScrollReq scrollID) w1 of
             (NoResponse, w2) \<Rightarrow> (Fatal ClearScrollFatal, w2)
           | (Response r, w2) \<Rightarrow> (Returned, w2)))"

text \<open>
  The monolithic \<open>main\<close> from the first search on; \<open>query\<close> is the text of
  \<^verbatim>\<open>query.json\<close>.  Every context is \<^verbatim>\<open>context.Background()\<close>, the batch size is 6.
\<close>

definition main_mono :: "(json \<Rightarrow> string) \<Rightarrow> string \<Rightarrow> world \<Rightarrow> exit \<times> world" where
  "main_mono bad_verb query w =
     (case Retry (attempt_mono SearchResponseError (send (SearchReq ''sample_data'' query 6 Minute)))
             (Plain backoffConfig) w of
        (Inl err, w1) \<Rightarrow> (Fatal InitialSearchFatal, w1)
      | (Inr res, w1) \<Rightarrow>
          (case Decode (Body res) of
             None \<Rightarrow> (Fatal ParseBodyFatal, w1)
           | Some result \<Rightarrow>
               (case map_of result ''_scroll_id'' of
                  Some (JStr scrollID) \<Rightarrow>
                    (case totalHits_mono result of
                       None \<Rightarrow> (Panic, w1)
                     | Some totalHits \<Rightarrow>
                         (case totalPages totalHits 6 of
                            None \<Rightarrow> (Panic, w1)
                          | Some pages \<Rightarrow>
                              (case hits_mono result of
                                 None \<Rightarrow>
                                   (Panic, Println (ProcessingPageLine 1 pages)
                                             (Println (TotalsLine totalHits pages) w1))
                               | Some hits \<Rightarrow>
                                   (case processHits_mono bad_verb hits
                                           (Println (ProcessingPageLine 1 pages)
                                              (Println (TotalsLine totalHits pages) w1)) of
                                      (Some ex, w2) \<Rightarrow> (ex, w2)
                                    | (None, w2) \<Rightarrow>
                                        scroll_and_clear_mono bad_verb pages 1 scrollID result w2))))
                | _ \<Rightarrow> (Fatal ScrollIDFatal, w1))))"

section \<open>Example responses and steps of the loops\<close>

subsection \<open>Engine responses of the expected shape\<close>

text \<open>
  A record whose document carries the title \<open>t\<close>, and the body of a page: a scroll id,
  the total under \<^verbatim>\<open>hits.total.value\<close> and the records under \<^verbatim>\<open>hits.hits\<close>.
\<close>

definition doc :: "string \<Rightarrow> json" where
  "doc t = JObj [(''_source'', JObj [(''title'', JStr t)])]"

definition page_body :: "string \<Rightarrow> rat \<Rightarrow> json list \<Rightarrow> json" where
  "page_body scroll_id n records =
     JObj [(''_scroll_id'', JStr scroll_id),
           (''hits'', JObj [(''total'', JObj [(''value'', JNum n)]), (''hits'', JArr records)])]"

definition page :: "string \<Rightarrow> rat \<Rightarrow> json list \<Rightarrow> reply" where
  "page scroll_id n records = Response (Resp False (Some (page_body scroll_id n records)))"

text \<open>A world in which nothing has happened yet, with the given script of replies.\<close>

definition fresh :: "reply list \<Rightarrow> world" where
  "fresh rs =
     \<lparr>replies = rs, budgets = [], ctx_live = None, room = None, requests = [], written = [],
      logged = []\<rparr>"

lemma extractHits_loop_those:
  "extractHits_loop hitsArray hits =
     (case those (map unmarshal_Hit hitsArray) of
        None \<Rightarrow> Inl UnmarshalHitError
      | Some hs \<Rightarrow> Inr (hits @ hs))"
  by (induction hitsArray arbitrary: hits) (auto split: option.splits)

lemma unmarshal_Hit_doc [simp]: "unmarshal_Hit (doc t) = Some \<lparr>Source = \<lparr>Title = t\<rparr>\<rparr>"
  by (simp add: doc_def unmarshal_Hit_def unmarshal_Source_def)

lemma those_map_doc [simp]:
  "those (map unmarshal_Hit (map doc ts)) = Some (map (\<lambda>t. \<lparr>Source = \<lparr>Title = t\<rparr>\<rparr>) ts)"
  by (induction ts) simp_all

lemma parseSearchResponse_page:
  "parseSearchResponse (Resp e (Some (page_body c n records))) =
     (case those (map unmarshal_Hit records) of
        None \<Rightarrow> Inl UnmarshalHitError
      | Some hs \<Rightarrow> Inr \<lparr>ScrollID = c, TotalHits = int_of_float64 n, Hits = hs\<rparr>)"
  by (simp add: parseSearchResponse_def page_body_def Decode_def extractTotalHits_def
      extractHits_def extractHits_loop_those split: option.splits)

lemma scroll_loop_cancelled:
  assumes "fst (ctx_Err ctx w)"
  shows "scroll_loop ctx cfg scrollID w = (Inr scrollID, Println ContextCancelledLine w)"
proof -
  from assms have "ctx_Err ctx w = (True, w)"
    by (auto simp: ctx_Err_def split: Context.splits option.splits nat.splits)
  then show ?thesis
    by (subst scroll_loop.simps) simp
qed

lemma scroll_loop_empty:
  assumes "ctx_Err ctx w = (False, w1)"
    and "send (ScrollReq scrollID (ScrollDuration cfg)) w1 = (Response res, w2)"
    and "\<not> IsError res"
    and "parseSearchResponse res = Inr result"
    and "Hits result = []"
  shows "scroll_loop ctx cfg scrollID w = (Inr scrollID, Println NoMoreHitsLine w2)"
  by (subst scroll_loop.simps) (simp add: assms)

lemma scroll_loop_page:
  assumes "ctx_Err ctx w = (False, w1)"
    and "send (ScrollReq scrollID (ScrollDuration cfg)) w1 = (Response res, w2)"
    and "\<not> IsError res"
    and "parseSearchResponse res = Inr result"
    and "Hits result \<noteq> []"
    and "processHits (Hits result) w2 = (None, w3)"
  shows "scroll_loop ctx cfg scrollID w = scroll_loop ctx cfg (ScrollID result) w3"
  by (subst scroll_loop.simps) (simp add: assms)

lemma scroll_loop_no_response:
  assumes "ctx_Err ctx w = (False, w1)"
    and "send (ScrollReq scrollID (ScrollDuration cfg)) w1 = (NoResponse, w2)"
  shows "scroll_loop ctx cfg scrollID w = (Inl (ScrollRequestFailed TransportError), w2)"
  by (subst scroll_loop.simps) (simp add: assms)

lemma scroll_loop_error_response:
  assumes "ctx_Err ctx w = (False, w1)"
    and "send (ScrollReq scrollID (ScrollDuration cfg)) w1 = (Response res, w2)"
    and "IsError res"
  shows "scroll_loop ctx cfg scrollID w = (Inl ScrollResponseError, w2)"
  by (subst scroll_loop.simps) (simp add: assms)

lemma requests_clearScroll:
  "requests (snd (clearScroll ctx scrollID w)) = requests w @ [ClearScrollReq scrollID]"
  by (simp add: clearScroll_def send_def Println_def split: list.splits reply.splits)

lemma scroll_and_clear_break:
  assumes "scroll_loop ctx cfg scrollID0 w = (Inr scrollID, w1)"
  shows "fst (scroll_and_clear ctx cfg scrollID0 w) = None"
    and "requests (snd (scroll_and_clear ctx cfg scrollID0 w)) = requests w1 @ [ClearScrollReq scrollID]"
  using requests_clearScroll [of ctx scrollID w1]
  by (auto simp: scroll_and_clear_def assms Println_def split: prod.splits option.splits)


text \<open>The defaults of the flags in \<open>parseFlags\<close>.\<close>

definition flag_defaults :: Config where
  "flag_defaults =
     \<lparr>ElasticsearchURL = ''http://localhost:9200'', IndexName = ''sample_data'',
      QueryFile = ''query.json'', OutputFile = ''data/logs.txt'', BatchSize = 100,
      ScrollDuration = 1 * Minute, InsecureTLS = False\<rparr>"

lemma processedHits_sources [simp]:
  "processedHits (map (\<lambda>src. JObj [(''_source'', JObj src)]) srcs) = Some srcs"
  by (induction srcs) simp_all

lemma parseScrollResponse_page:
  "parseScrollResponse (Some (page_body c n records)) =
     (case processedHits records of
        None \<Rightarrow> Panics
      | Some hs \<Rightarrow> Value \<lparr>ScrollID_mod = c, Hits_mod = hs, Total = int_of_float64 n\<rparr>)"
  by (simp add: parseScrollResponse_def page_body_def Decode_def split: option.splits)

lemma int_of_float64_numeral [simp]: "int_of_float64 13 = 13"
  by (simp add: int_of_float64_def truncate_rat_def)

lemma requests_ctx_Err [simp]: "requests (snd (ctx_Err ctx w)) = requests w"
  by (simp add: ctx_Err_def split: Context.splits option.splits nat.splits)

lemma requests_send [simp]: "requests (snd (send rq w)) = requests w @ [rq]"
  by (simp add: send_def split: list.splits)

lemma requests_Println [simp]: "requests (Println l w) = requests w"
  by (simp add: Println_def)

lemma scroll_loop_mod_empty:
  assumes "Scroll c (ScrollID_mod held) (Println (ProcessingPageLine (currentPage + 1) pages) w)
             = (Value fetched, w1)"
    and "Hits_mod fetched = []"
  shows "scroll_loop_mod bad_verb c pages currentPage held w = (Inr fetched, Println NoMoreHitsLine w1)"
  by (subst scroll_loop_mod.simps) (simp add: assms)

lemma scroll_loop_mod_page:
  assumes "Scroll c (ScrollID_mod held) (Println (ProcessingPageLine (currentPage + 1) pages) w)
             = (Value fetched, w1)"
    and "Hits_mod fetched \<noteq> []"
    and "ProcessHits bad_verb (Hits_mod fetched) w1 = (None, w2)"
  shows "scroll_loop_mod bad_verb c pages currentPage held w
           = scroll_loop_mod bad_verb c pages (currentPage + 1) fetched w2"
  by (subst scroll_loop_mod.simps) (simp add: assms)

lemma requests_ClearScroll:
  "requests (snd (ClearScroll c scrollID w)) = requests w @ [ClearScrollReq scrollID]"
  by (simp add: ClearScroll_def send_def split: list.splits reply.splits)

lemma scroll_and_clear_mod_break:
  assumes "scroll_loop_mod bad_verb c pages currentPage held w = (Inr fetched, w1)"
  shows "fst (scroll_and_clear_mod bad_verb c pages currentPage held w) = Returned"
    and "requests (snd (scroll_and_clear_mod bad_verb c pages currentPage held w))
           = requests w1 @ [ClearScrollReq (ScrollID_mod fetched)]"
  using requests_ClearScroll [of c "ScrollID_mod fetched" w1]
  by (auto simp: scroll_and_clear_mod_def assms Println_def split: prod.splits option.splits)

subsection \<open>What the primitives leave unchanged\<close>

lemma logged_ctx_Err [simp]: "logged (snd (ctx_Err ctx w)) = logged w"
  by (simp add: ctx_Err_def split: Context.splits option.splits nat.splits)

lemma logged_send [simp]: "logged (snd (send rq w)) = logged w"
  by (simp add: send_def split: list.splits)

lemma logged_WriteString [simp]: "logged (snd (WriteString s w)) = logged w"
  by (simp add: WriteString_def split: option.splits nat.splits)

lemma logged_Println [simp]: "logged (Println l w) = logged w @ [l]"
  by (simp add: Println_def)

lemma takes_Println [simp]: "takes (Println l w) k = takes w k"
  by (simp add: takes_def Println_def)

lemma written_Println [simp]: "written (Println l w) = written w"
  by (simp add: Println_def)

section \<open>The claims\<close>

subsection \<open>C1: an empty page ends the paging loop\<close>

text \<open>
  C1: at any iteration of the paging loop, whatever total the first page reported, a
  fetched page whose list of records is empty makes the loop \<^verbatim>\<open>break\<close>: the run ends
  without an error, and the only request made after that fetch is the release of the
  cursor.  First conjunct: the refactored program (the context not being cancelled at
  the head of the iteration, the response to the scroll request parses to a result
  with no hits).  Second conjunct: the modular program (\<open>Scroll\<close> hands back a result
  with no hits).
\<close>

theorem C1_empty_page_ends_loop:
  "(ctx_Err ctx w = (False, w1) \<and>
    send (ScrollReq scrollID (ScrollDuration cfg)) w1 = (Response res, w2) \<and>
    \<not> IsError res \<and> parseSearchResponse res = Inr result \<and> Hits result = [] \<longrightarrow>
      scroll_loop ctx cfg scrollID w = (Inr scrollID, Println NoMoreHitsLine w2) \<and>
      fst (scroll_and_clear ctx cfg scrollID w) = None \<and>
      requests (snd (scroll_and_clear ctx cfg scrollID w))
        = requests w @ [ScrollReq scrollID (ScrollDuration cfg), ClearScrollReq scrollID]) \<and>
   (Scroll c (ScrollID_mod held) (Println (ProcessingPageLine (currentPage + 1) pages) v)
      = (Value fetched, v1) \<and>
    Hits_mod fetched = [] \<longrightarrow>
      scroll_loop_mod bad_verb c pages currentPage held v = (Inr fetched, Println NoMoreHitsLine v1) \<and>
      fst (scroll_and_clear_mod bad_verb c pages currentPage held v) = Returned \<and>
      requests (snd (scroll_and_clear_mod bad_verb c pages currentPage held v))
        = requests v1 @ [ClearScrollReq (ScrollID_mod fetched)])"
proof (intro conjI impI; (elim conjE)?)
  assume a: "ctx_Err ctx w = (False, w1)"
    "send (ScrollReq scrollID (ScrollDuration cfg)) w1 = (Response res, w2)"
    "\<not> IsError res" "parseSearchResponse res = Inr result" "Hits result = []"
  have l: "scroll_loop ctx cfg scrollID w = (Inr scrollID, Println NoMoreHitsLine w2)"
    using a by (rule scroll_loop_empty)
  have "requests (snd (ctx_Err ctx w)) = requests w"
    by simp
  with a(1) have r1: "requests w1 = requests w"
    by simp
  have "requests (snd (send (ScrollReq scrollID (ScrollDuration cfg)) w1))
          = requests w1 @ [ScrollReq scrollID (ScrollDuration cfg)]"
    by simp
  with a(2) r1 have r2: "requests w2 = requests w @ [ScrollReq scrollID (ScrollDuration cfg)]"
    by simp
  show "scroll_loop ctx cfg scrollID w = (Inr scrollID, Println NoMoreHitsLine w2)"
    by (rule l)
  show "fst (scroll_and_clear ctx cfg scrollID w) = None"
    using l by (rule scroll_and_clear_break(1))
  show "requests (snd (scroll_and_clear ctx cfg scrollID w))
          = requests w @ [ScrollReq scrollID (ScrollDuration cfg), ClearScrollReq scrollID]"
    using scroll_and_clear_break(2) [OF l] r2 by simp
next
  assume b: "Scroll c (ScrollID_mod held) (Println (ProcessingPageLine (currentPage + 1) pages) v)
      = (Value fetched, v1)" "Hits_mod fetched = []"
  have l: "scroll_loop_mod bad_verb c pages currentPage held v = (Inr fetched, Println NoMoreHitsLine v1)"
    using b by (rule scroll_loop_mod_empty)
  show "scroll_loop_mod bad_verb c pages currentPage held v = (Inr fetched, Println NoMoreHitsLine v1)"
    by (rule l)
  show "fst (scroll_and_clear_mod bad_verb c pages currentPage held v) = Returned"
    using l by (rule scroll_and_clear_mod_break(1))
  show "requests (snd (scroll_and_clear_mod bad_verb c pages currentPage held v))
        = requests v1 @ [ClearScrollReq (ScrollID_mod fetched)]"
    using scroll_and_clear_mod_break(2) [OF l] by simp
qed

text \<open>
  An instance of C1: the held scroll id is \<open>c1\<close>, the engine answers the scroll request
  with an empty page under the scroll id \<open>c2\<close> and a total of 13.
\<close>

theorem C1_empty_page_ends_loop_witness:
  "ctx_Err WithCancel (fresh [page ''c2'' 13 []]) = (False, fresh [page ''c2'' 13 []]) \<and>
   send (ScrollReq ''c1'' (ScrollDuration flag_defaults)) (fresh [page ''c2'' 13 []])
     = (Response (Resp False (Some (page_body ''c2'' 13 []))),
        (fresh [])\<lparr>requests := [ScrollReq ''c1'' (ScrollDuration flag_defaults)]\<rparr>) \<and>
   \<not> IsError (Resp False (Some (page_body ''c2'' 13 []))) \<and>
   parseSearchResponse (Resp False (Some (page_body ''c2'' 13 [])))
     = Inr \<lparr>ScrollID = ''c2'', TotalHits = 13, Hits = []\<rparr> \<and>
   Hits \<lparr>ScrollID = ''c2'', TotalHits = 13, Hits = []\<rparr> = [] \<and>
   fst (scroll_and_clear WithCancel flag_defaults ''c1'' (fresh [page ''c2'' 13 []])) = None \<and>
   requests (snd (scroll_and_clear WithCancel flag_defaults ''c1'' (fresh [page ''c2'' 13 []])))
     = [ScrollReq ''c1'' (ScrollDuration flag_defaults), ClearScrollReq ''c1''] \<and>
   Scroll (NewESClient Minute 6 ''sample_data'') ''c1''
       (Println (ProcessingPageLine (1 + 1) 3) (fresh [page ''c2'' 13 []]))
     = (Value \<lparr>ScrollID_mod = ''c2'', Hits_mod = [], Total = 13\<rparr>,
        (fresh [])\<lparr>requests := [ScrollReq ''c1'' Minute], logged := [ProcessingPageLine 2 3]\<rparr>) \<and>
   fst (scroll_and_clear_mod (\<lambda>v. []) (NewESClient Minute 6 ''sample_data'') 3 1
          \<lparr>ScrollID_mod = ''c1'', Hits_mod = [], Total = 13\<rparr> (fresh [page ''c2'' 13 []])) = Returned \<and>
   requests (snd (scroll_and_clear_mod (\<lambda>v. []) (NewESClient Minute 6 ''sample_data'') 3 1
          \<lparr>ScrollID_mod = ''c1'', Hits_mod = [], Total = 13\<rparr> (fresh [page ''c2'' 13 []])))
     = [ScrollReq ''c1'' Minute, ClearScrollReq ''c2'']"
proof -
  have h1: "ctx_Err WithCancel (fresh [page ''c2'' 13 []]) = (False, fresh [page ''c2'' 13 []])"
    by code_simp
  have h2: "send (ScrollReq ''c1'' (ScrollDuration flag_defaults)) (fresh [page ''c2'' 13 []])
     = (Response (Resp False (Some (page_body ''c2'' 13 []))),
        (fresh [])\<lparr>requests := [ScrollReq ''c1'' (ScrollDuration flag_defaults)]\<rparr>)"
    by code_simp
  have h3: "parseSearchResponse (Resp False (Some (page_body ''c2'' 13 [])))
     = Inr \<lparr>ScrollID = ''c2'', TotalHits = 13, Hits = []\<rparr>"
    by code_simp
  have h4: "Scroll (NewESClient Minute 6 ''sample_data'')
       (ScrollID_mod \<lparr>ScrollID_mod = ''c1'', Hits_mod = [], Total = 13\<rparr>)
       (Println (ProcessingPageLine (1 + 1) 3) (fresh [page ''c2'' 13 []]))
     = (Value \<lparr>ScrollID_mod = ''c2'', Hits_mod = [], Total = 13\<rparr>,
        (fresh [])\<lparr>requests := [ScrollReq ''c1'' Minute], logged := [ProcessingPageLine 2 3]\<rparr>)"
    by code_simp
  have r: "requests (fresh [page ''c2'' 13 []]) = []"
    "requests ((fresh [])\<lparr>requests := [ScrollReq ''c1'' Minute], logged := [ProcessingPageLine 2 3]\<rparr>)
       = [ScrollReq ''c1'' Minute]"
    by (simp_all add: fresh_def)
  show ?thesis
    using C1_empty_page_ends_loop
      [where ctx = WithCancel and w = "fresh [page ''c2'' 13 []]" and ?w1.0 = "fresh [page ''c2'' 13 []]"
        and scrollID = "''c1''" and cfg = flag_defaults
        and res = "Resp False (Some (page_body ''c2'' 13 []))"
        and ?w2.0 = "(fresh [])\<lparr>requests := [ScrollReq ''c1'' (ScrollDuration flag_defaults)]\<rparr>"
        and result = "\<lparr>ScrollID = ''c2'', TotalHits = 13, Hits = []\<rparr>"
        and c = "NewESClient Minute 6 ''sample_data''"
        and held = "\<lparr>ScrollID_mod = ''c1'', Hits_mod = [], Total = 13\<rparr>"
        and currentPage = 1 and pages = 3 and v = "fresh [page ''c2'' 13 []]"
        and fetched = "\<lparr>ScrollID_mod = ''c2'', Hits_mod = [], Total = 13\<rparr>"
        and ?v1.0 = "(fresh [])\<lparr>requests := [ScrollReq ''c1'' Minute], logged := [ProcessingPageLine 2 3]\<rparr>"
        and bad_verb = "\<lambda>v. []"]
      h1 h2 h3 h4 r
    by simp
qed

subsection \<open>C2: follow-up page requests and the retrying executor\<close>

text \<open>
  C2 does not hold of the refactored program: its loop calls \<^verbatim>\<open>es.Scroll\<close> directly
  and returns at the first failure.  In the run below the engine answers the search
  with a page under the scroll id \<open>c1\<close>, gives no response to the first scroll request
  and would answer a second one with the last, empty page; every retry budget pays for
  five waits.  The refactored \<open>executeSearch\<close> fails after one scroll request
  (and likewise when the first scroll request gets an error response);
  the modular program, whose \<open>Scroll\<close> runs under \<^verbatim>\<open>backoff.Retry\<close>, asks again and
  completes.
\<close>

theorem C2_refactored_scroll_is_not_retried:
  "fst (executeSearch WithCancel [] flag_defaults
         ((fresh [page ''c1'' 13 [doc ''a''], NoResponse, page ''c2'' 13 []])\<lparr>budgets := [5, 5]\<rparr>))
     = Some (ScrollRequestFailed TransportError) \<and>
   requests (snd (executeSearch WithCancel [] flag_defaults
         ((fresh [page ''c1'' 13 [doc ''a''], NoResponse, page ''c2'' 13 []])\<lparr>budgets := [5, 5]\<rparr>)))
     = [SearchReq ''sample_data'' [] 100 (1 * Minute), ScrollReq ''c1'' (1 * Minute)] \<and>
   fst (main [] flag_defaults
         ((fresh [page ''c1'' 13 [doc ''a''], NoResponse, page ''c2'' 13 []])\<lparr>budgets := [5, 5]\<rparr>))
     = Fatal (ExecuteSearchFatal (ScrollRequestFailed TransportError)) \<and>
   fst (executeSearch WithCancel [] flag_defaults
         ((fresh [page ''c1'' 13 [doc ''a''], Response (Resp True None), page ''c2'' 13 []])
            \<lparr>budgets := [5, 5]\<rparr>))
     = Some ScrollResponseError \<and>
   requests (snd (executeSearch WithCancel [] flag_defaults
         ((fresh [page ''c1'' 13 [doc ''a''], Response (Resp True None), page ''c2'' 13 []])
            \<lparr>budgets := [5, 5]\<rparr>)))
     = [SearchReq ''sample_data'' [] 100 (1 * Minute), ScrollReq ''c1'' (1 * Minute)] \<and>
   fst (main_mod (\<lambda>v. []) [] []
         ((fresh [page ''c1'' 13 [doc ''a''], NoResponse, page ''c2'' 13 []])\<lparr>budgets := [5, 5]\<rparr>))
     = Returned \<and>
   requests (snd (main_mod (\<lambda>v. []) [] []
         ((fresh [page ''c1'' 13 [doc ''a''], NoResponse, page ''c2'' 13 []])\<lparr>budgets := [5, 5]\<rparr>)))
     = [SearchReq ''sample_data'' [] 6 Minute, ScrollReq ''c1'' Minute, ScrollReq ''c1'' Minute,
        ClearScrollReq ''c2'']"
  by code_simp

subsection \<open>C3: a failed release of the cursor\<close>

text \<open>
  C3 does not hold of the monolithic program: when \<^verbatim>\<open>es.ClearScroll\<close> returns an
  error, \<open>main\<close> calls \<^verbatim>\<open>log.Fatalf\<close> and the process ends with status 1.  In the run
  below the engine serves one page and the empty page and gives no response to the
  release.  The monolithic \<open>main\<close> ends fatally (the line already written stays in the
  file); the refactored and the modular \<open>main\<close> log the failure and return.
\<close>

theorem C3_monolithic_release_failure_is_fatal:
  "fst (main_mono (\<lambda>v. []) [] (fresh [page ''c1'' 13 [doc ''a''], page ''c2'' 13 [], NoResponse]))
     = Fatal ClearScrollFatal \<and>
   written (snd (main_mono (\<lambda>v. []) [] (fresh [page ''c1'' 13 [doc ''a''], page ''c2'' 13 [], NoResponse])))
     = [line ''a''] \<and>
   fst (main [] flag_defaults (fresh [page ''c1'' 13 [doc ''a''], page ''c2'' 13 [], NoResponse]))
     = Returned \<and>
   logged (snd (main [] flag_defaults (fresh [page ''c1'' 13 [doc ''a''], page ''c2'' 13 [], NoResponse])))
     = [TotalHitsLine 13, NoMoreHitsLine, ClearScrollErrorLine TransportError, CompletedLine] \<and>
   written (snd (main [] flag_defaults (fresh [page ''c1'' 13 [doc ''a''], page ''c2'' 13 [], NoResponse])))
     = [line ''a''] \<and>
   fst (main_mod (\<lambda>v. []) [] [] (fresh [page ''c1'' 13 [doc ''a''], page ''c2'' 13 [], NoResponse]))
     = Returned \<and>
   logged (snd (main_mod (\<lambda>v. []) [] [] (fresh [page ''c1'' 13 [doc ''a''], page ''c2'' 13 [], NoResponse])))
     = [ProcessingPageLine 1 3, ProcessingPageLine 2 3, NoMoreHitsLine,
        ClearScrollWarningLine TransportError]"
  by code_simp

subsection \<open>C4: what the response parser rejects\<close>

lemma unmarshal_Source_None:
  "unmarshal_Source s = None \<longleftrightarrow>
     (s \<noteq> JNull \<and> (\<forall>m. s \<noteq> JObj m)) \<or>
     (\<exists>m t. s = JObj m \<and> map_of m ''title'' = Some t \<and> t \<noteq> JNull \<and> (\<forall>x. t \<noteq> JStr x))"
  by (auto simp: unmarshal_Source_def split: json.splits option.splits)

lemma unmarshal_Hit_None:
  "unmarshal_Hit h = None \<longleftrightarrow>
     (h \<noteq> JNull \<and> (\<forall>m. h \<noteq> JObj m)) \<or>
     (\<exists>m s. h = JObj m \<and> map_of m ''_source'' = Some s \<and> unmarshal_Source s = None)"
  by (auto simp: unmarshal_Hit_def split: json.splits option.splits)

lemma parseSearchResponse_Inr_iff:
  "parseSearchResponse (Resp e (Some (JObj raw))) = Inr r \<longleftrightarrow>
     (\<exists>scrollID hitsObj totalObj v hitsArray hits.
        map_of raw ''_scroll_id'' = Some (JStr scrollID) \<and>
        map_of raw ''hits'' = Some (JObj hitsObj) \<and>
        map_of hitsObj ''total'' = Some (JObj totalObj) \<and>
        map_of totalObj ''value'' = Some (JNum v) \<and>
        map_of hitsObj ''hits'' = Some (JArr hitsArray) \<and>
        those (map unmarshal_Hit hitsArray) = Some hits \<and>
        r = \<lparr>ScrollID = scrollID, TotalHits = int_of_float64 v, Hits = hits\<rparr>)"
  by (auto simp: parseSearchResponse_def Decode_def extractTotalHits_def extractHits_def
      extractHits_loop_those split: option.splits json.splits sum.splits)

lemmas parse_steps =
  parseSearchResponse_def Decode_def extractTotalHits_def extractHits_def extractHits_loop_those

lemma parse_ScrollIDNotFound_iff:
  "parseSearchResponse (Resp e (Some (JObj raw))) = Inl ScrollIDNotFound \<longleftrightarrow>
     (\<forall>c. map_of raw ''_scroll_id'' \<noteq> Some (JStr c))"
  by (auto simp: parse_steps split: option.splits json.splits sum.splits)

lemma parse_HitsNotFound_iff:
  "parseSearchResponse (Resp e (Some (JObj raw))) = Inl HitsNotFound \<longleftrightarrow>
     (\<exists>c. map_of raw ''_scroll_id'' = Some (JStr c)) \<and>
     (\<forall>m. map_of raw ''hits'' \<noteq> Some (JObj m))"
  by (auto simp: parse_steps split: option.splits json.splits sum.splits)

lemma parse_TotalHitsNotFound_iff:
  "parseSearchResponse (Resp e (Some (JObj raw))) = Inl TotalHitsNotFound \<longleftrightarrow>
     (\<exists>c hitsObj. map_of raw ''_scroll_id'' = Some (JStr c) \<and>
        map_of raw ''hits'' = Some (JObj hitsObj) \<and>
        (\<forall>m. map_of hitsObj ''total'' \<noteq> Some (JObj m)))"
  by (auto simp: parse_steps split: option.splits json.splits sum.splits)

lemma parse_TotalHitsValueNotFound_iff:
  "parseSearchResponse (Resp e (Some (JObj raw))) = Inl TotalHitsValueNotFound \<longleftrightarrow>
     (\<exists>c hitsObj totalObj. map_of raw ''_scroll_id'' = Some (JStr c) \<and>
        map_of raw ''hits'' = Some (JObj hitsObj) \<and>
        map_of hitsObj ''total'' = Some (JObj totalObj) \<and>
        (\<forall>v. map_of totalObj ''value'' \<noteq> Some (JNum v)))"
  by (auto simp: parse_steps split: option.splits json.splits sum.splits)

lemma parse_HitsArrayNotFound_iff:
  "parseSearchResponse (Resp e (Some (JObj raw))) = Inl HitsArrayNotFound \<longleftrightarrow>
     (\<exists>c hitsObj totalObj v. map_of raw ''_scroll_id'' = Some (JStr c) \<and>
        map_of raw ''hits'' = Some (JObj hitsObj) \<and>
        map_of hitsObj ''total'' = Some (JObj totalObj) \<and>
        map_of totalObj ''value'' = Some (JNum v) \<and>
        (\<forall>a. map_of hitsObj ''hits'' \<noteq> Some (JArr a)))"
  by (auto simp: parse_steps split: option.splits json.splits sum.splits)

lemma those_map_None_iff: "those (map f xs) = None \<longleftrightarrow> (\<exists>x. x \<in> set xs \<and> f x = None)"
  by (induction xs) (auto split: option.splits)

lemma parse_UnmarshalHitError_iff:
  "parseSearchResponse (Resp e (Some (JObj raw))) = Inl UnmarshalHitError \<longleftrightarrow>
     (\<exists>c hitsObj totalObj v hitsArray h. map_of raw ''_scroll_id'' = Some (JStr c) \<and>
        map_of raw ''hits'' = Some (JObj hitsObj) \<and>
        map_of hitsObj ''total'' = Some (JObj totalObj) \<and>
        map_of totalObj ''value'' = Some (JNum v) \<and>
        map_of hitsObj ''hits'' = Some (JArr hitsArray) \<and>
        h \<in> set hitsArray \<and> unmarshal_Hit h = None)"
proof
  assume "parseSearchResponse (Resp e (Some (JObj raw))) = Inl UnmarshalHitError"
  then obtain c hitsObj totalObj v hitsArray where
    "map_of raw ''_scroll_id'' = Some (JStr c)" "map_of raw ''hits'' = Some (JObj hitsObj)"
    "map_of hitsObj ''total'' = Some (JObj totalObj)" "map_of totalObj ''value'' = Some (JNum v)"
    "map_of hitsObj ''hits'' = Some (JArr hitsArray)" "those (map unmarshal_Hit hitsArray) = None"
    by (auto simp: parse_steps split: option.splits json.splits sum.splits)
  then show "\<exists>c hitsObj totalObj v hitsArray h. map_of raw ''_scroll_id'' = Some (JStr c) \<and>
        map_of raw ''hits'' = Some (JObj hitsObj) \<and>
        map_of hitsObj ''total'' = Some (JObj totalObj) \<and>
        map_of totalObj ''value'' = Some (JNum v) \<and>
        map_of hitsObj ''hits'' = Some (JArr hitsArray) \<and>
        h \<in> set hitsArray \<and> unmarshal_Hit h = None"
    unfolding those_map_None_iff by blast
next
  assume "\<exists>c hitsObj totalObj v hitsArray h. map_of raw ''_scroll_id'' = Some (JStr c) \<and>
        map_of raw ''hits'' = Some (JObj hitsObj) \<and>
        map_of hitsObj ''total'' = Some (JObj totalObj) \<and>
        map_of totalObj ''value'' = Some (JNum v) \<and>
        map_of hitsObj ''hits'' = Some (JArr hitsArray) \<and>
        h \<in> set hitsArray \<and> unmarshal_Hit h = None"
  then obtain c hitsObj totalObj v hitsArray h where f:
    "map_of raw ''_scroll_id'' = Some (JStr c)" "map_of raw ''hits'' = Some (JObj hitsObj)"
    "map_of hitsObj ''total'' = Some (JObj totalObj)" "map_of totalObj ''value'' = Some (JNum v)"
    "map_of hitsObj ''hits'' = Some (JArr hitsArray)" "h \<in> set hitsArray" "unmarshal_Hit h = None"
    by blast
  from f(6,7) have "those (map unmarshal_Hit hitsArray) = None"
    unfolding those_map_None_iff by blast
  with f(1-5) show "parseSearchResponse (Resp e (Some (JObj raw))) = Inl UnmarshalHitError"
    by (simp add: parse_steps)
qed

lemma unmarshal_Hit_empty_title_iff:
  "unmarshal_Hit (JObj m) = Some \<lparr>Source = \<lparr>Title = []\<rparr>\<rparr> \<longleftrightarrow>
     map_of m ''_source'' = None \<or> map_of m ''_source'' = Some JNull \<or>
     (\<exists>s. map_of m ''_source'' = Some (JObj s) \<and>
        (map_of s ''title'' = None \<or> map_of s ''title'' = Some JNull \<or>
         map_of s ''title'' = Some (JStr [])))"
  by (auto simp: unmarshal_Hit_def unmarshal_Source_def split: json.splits option.splits)




subsection \<open>C5: how the retrying executor is configured\<close>

lemmas retry_steps =
  retryWithBackoff_def Retry_def getContext_def operation_def attempt_mod_def handleESResponse_def
  send_def ctx_Err_def

lemma retryWithBackoff_second_attempt:
  "retryWithBackoff ctx (send rq)
       (w\<lparr>replies := NoResponse # Response (Resp False body) # rs, budgets := Suc n # bs,
          ctx_live := None\<rparr>)
     = (Inr (Resp False body),
        w\<lparr>replies := rs, budgets := bs, ctx_live := None, requests := requests w @ [rq, rq]\<rparr>)"
  "retryWithBackoff ctx (send rq)
       (w\<lparr>replies := Response (Resp True failure) # Response (Resp False body) # rs,
          budgets := Suc n # bs, ctx_live := None\<rparr>)
     = (Inr (Resp False body),
        w\<lparr>replies := rs, budgets := bs, ctx_live := None, requests := requests w @ [rq, rq]\<rparr>)"
  by (cases n; cases ctx; simp add: retry_steps)+

lemma retryWithBackoff_budget_spent:
  "retryWithBackoff ctx (send rq)
       (w\<lparr>replies := NoResponse # rs, budgets := 0 # bs, ctx_live := None\<rparr>)
     = (Inl TransportError,
        w\<lparr>replies := rs, budgets := bs, ctx_live := None, requests := requests w @ [rq]\<rparr>)"
  "retryWithBackoff ctx (send rq)
       (w\<lparr>replies := Response (Resp True failure) # rs, budgets := 0 # bs, ctx_live := None\<rparr>)
     = (Inl ResponseError,
        w\<lparr>replies := rs, budgets := bs, ctx_live := None, requests := requests w @ [rq]\<rparr>)"
  by (cases ctx; simp add: retry_steps)+

lemma Retry_mod_second_attempt:
  "Retry (attempt_mod (send rq)) (Plain newBackoffConfig)
       (w\<lparr>replies := NoResponse # Response (Resp False body) # rs, budgets := Suc n # bs\<rparr>)
     = (Inr (Response (Resp False body)),
        w\<lparr>replies := rs, budgets := bs, requests := requests w @ [rq, rq]\<rparr>)"
  "Retry (attempt_mod (send rq)) (Plain newBackoffConfig)
       (w\<lparr>replies := Response (Resp True failure) # Response (Resp False body) # rs,
          budgets := Suc n # bs\<rparr>)
     = (Inr (Response (Resp False body)),
        w\<lparr>replies := rs, budgets := bs, requests := requests w @ [rq, rq]\<rparr>)"
  by (cases n; simp add: retry_steps)+

lemma Retry_mod_budget_spent:
  "Retry (attempt_mod (send rq)) (Plain newBackoffConfig)
       (w\<lparr>replies := NoResponse # rs, budgets := 0 # bs\<rparr>)
     = (Inl (ESRequestFailed TransportError),
        w\<lparr>replies := rs, budgets := bs, requests := requests w @ [rq]\<rparr>)"
  "Retry (attempt_mod (send rq)) (Plain newBackoffConfig)
       (w\<lparr>replies := Response (Resp True failure) # rs, budgets := 0 # bs\<rparr>)
     = (Inl ESResponseError,
        w\<lparr>replies := rs, budgets := bs, requests := requests w @ [rq]\<rparr>)"
  by (simp_all add: retry_steps)


subsection \<open>C6: what the hit processor writes\<close>

lemma WriteString_takes:
  assumes "takes w (Suc k)"
  shows "\<exists>w1. WriteString s w = (True, w1) \<and> takes w1 k \<and> written w1 = written w @ [s] \<and>
              logged w1 = logged w"
  using assms by (auto simp: takes_def WriteString_def split: option.splits nat.splits)

lemma processHits_writes:
  "takes w (length (filter (\<lambda>hit. Title (Source hit) \<noteq> []) hits)) \<Longrightarrow>
   fst (processHits hits w) = None \<and>
   written (snd (processHits hits w))
     = written w @ map (\<lambda>hit. line (Title (Source hit))) (filter (\<lambda>hit. Title (Source hit) \<noteq> []) hits) \<and>
   logged (snd (processHits hits w))
     = logged w @ replicate (length (filter (\<lambda>hit. Title (Source hit) = []) hits)) TitleNotFoundLine"
proof (induction hits arbitrary: w)
  case Nil
  show ?case by simp
next
  case (Cons hit hits)
  show ?case
  proof (cases "Title (Source hit) = []")
    case True
    with Cons.prems have "takes (Println TitleNotFoundLine w) (length (filter (\<lambda>hit. Title (Source hit) \<noteq> []) hits))"
      by simp
    from Cons.IH [OF this] True show ?thesis
      by (simp add: replicate_app_Cons_same)
  next
    case False
    with Cons.prems have "takes w (Suc (length (filter (\<lambda>hit. Title (Source hit) \<noteq> []) hits)))"
      by simp
    from WriteString_takes [OF this, of "line (Title (Source hit))"]
    obtain w1 where w1: "WriteString (line (Title (Source hit))) w = (True, w1)"
      "takes w1 (length (filter (\<lambda>hit. Title (Source hit) \<noteq> []) hits))"
      "written w1 = written w @ [line (Title (Source hit))]" "logged w1 = logged w"
      by blast
    from Cons.IH [OF w1(2)] w1(1,3,4) False show ?thesis
      by simp
  qed
qed

lemma ProcessHits_writes:
  "takes w (length (filter (\<lambda>hit. map_of hit ''title'' \<noteq> None) hits)) \<Longrightarrow>
   fst (ProcessHits bad_verb hits w) = None \<and>
   written (snd (ProcessHits bad_verb hits w))
     = written w @ List.map_filter (\<lambda>hit. map_option (Sprintf_line bad_verb) (map_of hit ''title'')) hits"
proof (induction hits arbitrary: w)
  case Nil
  show ?case by (simp add: List.map_filter_simps)
next
  case (Cons hit hits)
  show ?case
  proof (cases "map_of hit ''title''")
    case None
    with Cons.prems have "takes w (length (filter (\<lambda>hit. map_of hit ''title'' \<noteq> None) hits))"
      by simp
    from Cons.IH [OF this] None show ?thesis
      by (simp add: List.map_filter_simps)
  next
    case (Some message)
    with Cons.prems have "takes w (Suc (length (filter (\<lambda>hit. map_of hit ''title'' \<noteq> None) hits)))"
      by simp
    from WriteString_takes [OF this, of "Sprintf_line bad_verb message"]
    obtain w1 where w1: "WriteString (Sprintf_line bad_verb message) w = (True, w1)"
      "takes w1 (length (filter (\<lambda>hit. map_of hit ''title'' \<noteq> None) hits))"
      "written w1 = written w @ [Sprintf_line bad_verb message]"
      by blast
    from Cons.IH [OF w1(2)] w1(1,3) Some show ?thesis
      by (simp add: List.map_filter_simps)
  qed
qed

lemma length_map_filter:
  "length (List.map_filter f xs) = length (filter (\<lambda>x. f x \<noteq> None) xs)"
  by (simp add: List.map_filter_def)




subsection \<open>C7: the cursor that is released\<close>

text \<open>
  C7 does not hold of the refactored program (nor of the monolithic one): the loop
  leaves by \<^verbatim>\<open>break\<close> before \<^verbatim>\<open>scrollID = result.ScrollID\<close>, so the scroll id that
  comes with the final, empty page is never taken over.  In the run below the first
  page comes with the scroll id \<open>c1\<close> and the empty page with \<open>c2\<close>.  The refactored
  and the monolithic program release \<open>c1\<close>; the modular program, which overwrites
  \<^verbatim>\<open>result\<close> on every fetch, releases \<open>c2\<close>.
\<close>

theorem C7_refactored_releases_stale_cursor:
  "requests (snd (main [] flag_defaults
       (fresh [page ''c1'' 13 [doc ''a''], page ''c2'' 13 [], Response (Resp False (Some (JObj [])))])))
     = [SearchReq ''sample_data'' [] 100 (1 * Minute), ScrollReq ''c1'' (1 * Minute),
        ClearScrollReq ''c1''] \<and>
   requests (snd (main_mono (\<lambda>v. []) []
       (fresh [page ''c1'' 13 [doc ''a''], page ''c2'' 13 [], Response (Resp False (Some (JObj [])))])))
     = [SearchReq ''sample_data'' [] 6 Minute, ScrollReq ''c1'' Minute, ClearScrollReq ''c1''] \<and>
   requests (snd (main_mod (\<lambda>v. []) [] []
       (fresh [page ''c1'' 13 [doc ''a''], page ''c2'' 13 [], Response (Resp False (Some (JObj [])))])))
     = [SearchReq ''sample_data'' [] 6 Minute, ScrollReq ''c1'' Minute, ClearScrollReq ''c2'']"
  by code_simp

subsection \<open>C8: cancellation stops the retries and the paging loop\<close>

lemma operation_send_frame:
  assumes "operation (send rq) w = (x, w1)"
  shows "ctx_live w1 = ctx_live w" and "requests w1 = requests w @ [rq]"
  using assms
  by (auto simp: operation_def send_def split: list.splits reply.splits if_splits)

lemma retry_loop_cancelled:
  assumes k: "ctx_live w = Some k" "k \<le> 1"
    and f: "fst (operation (send rq) w) = Inl e"
  shows "\<exists>w'. retry_loop WithCancel (operation (send rq)) n w = (Inl ContextCanceled, w') \<and>
              requests w' = requests w @ [rq]"
proof -
  obtain w1 where o: "operation (send rq) w = (Inl e, w1)"
    using f by (cases "operation (send rq) w") simp
  from operation_send_frame [OF o] k
  have w1: "ctx_live w1 = Some k" "requests w1 = requests w @ [rq]"
    by simp_all
  from k(2) have "k = 0 \<or> k = Suc 0"
    by auto
  then show ?thesis
    using o w1 by (cases n) (auto simp: ctx_Err_def)
qed

text \<open>
  C8: (first conjunct) in the refactored program, after a failed attempt with the
  context cancelled by then (\<open>k = 0\<close>: when \<^verbatim>\<open>NextBackOff\<close> is asked; \<open>k = 1\<close>: while
  the executor waits), the executor gives up with the context's error having made that
  one request only, however many waits \<open>n\<close> its budget would still pay for;
  (second conjunct) when the context is found cancelled at the head of an iteration,
  the paging loop is left without a further request.  The contexts of the other two
  programs are \<^verbatim>\<open>context.Background()\<close>, which is never cancelled (third conjunct).
\<close>

theorem C8_cancellation_is_observed:
  "(ctx_live w = Some k \<and> k \<le> 1 \<and> fst (operation (send rq) w) = Inl e \<longrightarrow>
      (\<exists>w'. retry_loop WithCancel (operation (send rq)) n w = (Inl ContextCanceled, w') \<and>
            requests w' = requests w @ [rq]) \<and>
      (\<exists>w'. retryWithBackoff WithCancel (send rq) w = (Inl ContextCanceled, w') \<and>
            requests w' = requests w @ [rq])) \<and>
   (fst (ctx_Err ctx v) \<longrightarrow>
      scroll_loop ctx cfg scrollID v = (Inr scrollID, Println ContextCancelledLine v) \<and>
      requests (snd (scroll_loop ctx cfg scrollID v)) = requests v) \<and>
   \<not> fst (ctx_Err Background v)"
proof (intro conjI impI; (elim conjE)?)
  assume k: "ctx_live w = Some k" "k \<le> 1" and f: "fst (operation (send rq) w) = Inl e"
  show "\<exists>w'. retry_loop WithCancel (operation (send rq)) n w = (Inl ContextCanceled, w') \<and>
            requests w' = requests w @ [rq]"
    using k f by (rule retry_loop_cancelled)
  show "\<exists>w'. retryWithBackoff WithCancel (send rq) w = (Inl ContextCanceled, w') \<and>
            requests w' = requests w @ [rq]"
  proof (cases "budgets w")
    case Nil
    then show ?thesis
      using retry_loop_cancelled [OF k f, of 0]
      by (simp add: retryWithBackoff_def Retry_def getContext_def del: retry_loop.simps)
  next
    case (Cons m ms)
    have f': "fst (operation (send rq) (w\<lparr>budgets := ms\<rparr>)) = Inl e"
      using f by (auto simp: operation_def send_def split: list.splits reply.splits if_splits)
    have "\<exists>w'. retry_loop WithCancel (operation (send rq)) m (w\<lparr>budgets := ms\<rparr>)
                  = (Inl ContextCanceled, w') \<and>
                requests w' = requests (w\<lparr>budgets := ms\<rparr>) @ [rq]"
      using k f' by (intro retry_loop_cancelled) simp_all
    with Cons show ?thesis
      by (simp add: retryWithBackoff_def Retry_def getContext_def del: retry_loop.simps)
  qed
next
  assume c: "fst (ctx_Err ctx v)"
  then show l: "scroll_loop ctx cfg scrollID v = (Inr scrollID, Println ContextCancelledLine v)"
    by (rule scroll_loop_cancelled)
  then show "requests (snd (scroll_loop ctx cfg scrollID v)) = requests v"
    by simp
next
  show "\<not> fst (ctx_Err Background v)"
    by (simp add: ctx_Err_def)
qed

text \<open>
  An instance of C8: the first search attempt gets no response and the context is
  cancelled during the wait that follows, with a budget of seven waits.
\<close>

theorem C8_cancellation_is_observed_witness:
  "ctx_live ((fresh [NoResponse, page ''c1'' 13 []])\<lparr>ctx_live := Some 1, budgets := [7]\<rparr>) = Some 1 \<and>
   (1 :: nat) \<le> 1 \<and>
   fst (operation (send (SearchReq ''sample_data'' [] 100 Minute))
          ((fresh [NoResponse, page ''c1'' 13 []])\<lparr>ctx_live := Some 1, budgets := [7]\<rparr>))
     = Inl TransportError \<and>
   fst (retryWithBackoff WithCancel (send (SearchReq ''sample_data'' [] 100 Minute))
          ((fresh [NoResponse, page ''c1'' 13 []])\<lparr>ctx_live := Some 1, budgets := [7]\<rparr>))
     = Inl ContextCanceled \<and>
   requests (snd (retryWithBackoff WithCancel (send (SearchReq ''sample_data'' [] 100 Minute))
          ((fresh [NoResponse, page ''c1'' 13 []])\<lparr>ctx_live := Some 1, budgets := [7]\<rparr>)))
     = [SearchReq ''sample_data'' [] 100 Minute] \<and>
   fst (ctx_Err WithCancel ((fresh [page ''c2'' 13 []])\<lparr>ctx_live := Some 0\<rparr>)) \<and>
   requests (snd (scroll_loop WithCancel flag_defaults ''c1''
          ((fresh [page ''c2'' 13 []])\<lparr>ctx_live := Some 0\<rparr>))) = []"
proof -
  let ?w = "(fresh [NoResponse, page ''c1'' 13 []])\<lparr>ctx_live := Some 1, budgets := [7]\<rparr>"
  let ?v = "(fresh [page ''c2'' 13 []])\<lparr>ctx_live := Some 0\<rparr>"
  have h1: "ctx_live ?w = Some 1"
    by simp
  have h2: "fst (operation (send (SearchReq ''sample_data'' [] 100 Minute)) ?w) = Inl TransportError"
    by code_simp
  have h3: "fst (ctx_Err WithCancel ?v)"
    by code_simp
  have r: "requests ?w = []" "requests ?v = []"
    by (simp_all add: fresh_def)
  show ?thesis
    using C8_cancellation_is_observed
      [where w = ?w and k = 1 and rq = "SearchReq ''sample_data'' [] 100 Minute" and e = TransportError and n = 7
        and ctx = WithCancel and v = ?v and cfg = flag_defaults and scrollID = "''c1''"]
      h1 h2 h3 r
    by auto
qed

subsection \<open>C9: the page count is the ceiling of total over page size\<close>

lemma ceil_div_aux:
  fixes n p :: int
  assumes "0 < p"
  shows "(- n) div p = - ((n + p - 1) div p)"
proof (rule int_div_pos_eq)
  have "n + p - 1 = p * ((n + p - 1) div p) + (n + p - 1) mod p"
    by simp
  then show "- n = p * - ((n + p - 1) div p) + (p - 1 - (n + p - 1) mod p)"
    by (simp add: algebra_simps)
  show "0 \<le> p - 1 - (n + p - 1) mod p"
    using pos_mod_bound [OF assms, of "n + p - 1"] by simp
  show "p - 1 - (n + p - 1) mod p < p"
    using pos_mod_sign [OF assms, of "n + p - 1"] by simp
qed

lemma ceil_div_int:
  fixes n p :: int
  assumes "0 < p"
  shows "\<lceil>real_of_int n / real_of_int p\<rceil> = (n + p - 1) div p"
  by (simp add: ceiling_divide_eq_div ceil_div_aux [OF assms])

lemma sint_in_range:
  fixes k :: int
  assumes "- (2 ^ 63) \<le> k" "k < 2 ^ 63"
  shows "sint (word_of_int k :: go_int) = k"
  using assms by (simp add: sint_sbintrunc' signed_take_bit_int_eq_self)

lemma sint_sum:
  fixes n p :: go_int
  assumes "0 \<le> sint n" "0 < sint p" "sint n + sint p - 1 < 2 ^ 63"
  shows "sint (n + p - 1) = sint n + sint p - 1"
proof -
  have "n + p - 1 = word_of_int (sint n + sint p - 1)"
    by simp
  then show ?thesis
    using assms sint_in_range [of "sint n + sint p - 1"] by simp
qed




subsection \<open>C10: a run cancelled while paging ends as a success\<close>

lemma logged_processHits:
  "set (logged (snd (processHits hits w))) \<subseteq> insert TitleNotFoundLine (set (logged w))"
proof (induction hits arbitrary: w)
  case Nil
  show ?case by auto
next
  case (Cons hit hits)
  show ?case
  proof (cases "WriteString (line (Title (Source hit))) w")
    case (Pair ok w1)
    have "logged (snd (WriteString (line (Title (Source hit))) w)) = logged w"
      by simp
    with Pair have l: "logged w1 = logged w"
      by simp
    show ?thesis
      using Pair l Cons.IH [of w1] Cons.IH [of "Println TitleNotFoundLine w"]
      by (cases ok) auto
  qed
qed

lemma logged_operation_send [simp]: "logged (snd (operation (send rq) w)) = logged w"
proof (cases "send rq w")
  case (Pair r w1)
  have "logged (snd (send rq w)) = logged w"
    by simp
  with Pair have "logged w1 = logged w"
    by simp
  with Pair show ?thesis
    by (simp add: operation_def split: reply.splits)
qed

lemma logged_retry_loop:
  assumes "\<And>w. logged (snd (attempt w)) = logged w"
  shows "logged (snd (retry_loop ctx attempt n w)) = logged w"
proof (induction n arbitrary: w)
  case 0
  obtain x w1 where a: "attempt w = (x, w1)"
    by (cases "attempt w")
  obtain c2 w2 where c2: "ctx_Err ctx w1 = (c2, w2)"
    by (cases "ctx_Err ctx w1")
  obtain c3 w3 where c3: "ctx_Err ctx w2 = (c3, w3)"
    by (cases "ctx_Err ctx w2")
  from a assms [of w] have l1: "logged w1 = logged w"
    by simp
  from c2 logged_ctx_Err [of ctx w1] have l2: "logged w2 = logged w1"
    by simp
  from c3 logged_ctx_Err [of ctx w2] have l3: "logged w3 = logged w2"
    by simp
  show ?case
    using a c2 c3 l1 l2 l3 by (cases x; cases c2; cases c3) simp_all
next
  case (Suc n)
  obtain x w1 where a: "attempt w = (x, w1)"
    by (cases "attempt w")
  obtain c2 w2 where c2: "ctx_Err ctx w1 = (c2, w2)"
    by (cases "ctx_Err ctx w1")
  obtain c3 w3 where c3: "ctx_Err ctx w2 = (c3, w3)"
    by (cases "ctx_Err ctx w2")
  from a assms [of w] have l1: "logged w1 = logged w"
    by simp
  from c2 logged_ctx_Err [of ctx w1] have l2: "logged w2 = logged w1"
    by simp
  from c3 logged_ctx_Err [of ctx w2] have l3: "logged w3 = logged w2"
    by simp
  show ?case
    using a c2 c3 l1 l2 l3 Suc.IH [of w3] by (cases x; cases c2; cases c3) simp_all
qed

lemma logged_retryWithBackoff [simp]:
  "logged (snd (retryWithBackoff ctx (send rq) w)) = logged w"
  using logged_retry_loop [of "operation (send rq)"]
  by (simp add: retryWithBackoff_def Retry_def split: list.splits del: retry_loop.simps)

text \<open>
  The loop logs that the context was cancelled only on the way out through its check
  at the head of an iteration, and that way out is a \<^verbatim>\<open>break\<close>.
\<close>

lemma scroll_loop_cancel_logged:
  "ContextCancelledLine \<notin> set (logged w) \<Longrightarrow>
   ContextCancelledLine \<in> set (logged (snd (scroll_loop ctx cfg scrollID w))) \<Longrightarrow>
   \<exists>held. fst (scroll_loop ctx cfg scrollID w) = Inr held"
proof (induction ctx cfg scrollID w rule: scroll_loop.induct)
  case (1 ctx cfg scrollID w)
  obtain c w1 where c: "ctx_Err ctx w = (c, w1)"
    by (cases "ctx_Err ctx w")
  from c logged_ctx_Err [of ctx w] have l1: "logged w1 = logged w"
    by simp
  obtain r w2 where s: "send (ScrollReq scrollID (ScrollDuration cfg)) w1 = (r, w2)"
    by (cases "send (ScrollReq scrollID (ScrollDuration cfg)) w1")
  from s logged_send [of "ScrollReq scrollID (ScrollDuration cfg)" w1] l1
  have l2: "logged w2 = logged w"
    by simp
  show ?case
  proof (cases c)
    case True
    with c have "fst (ctx_Err ctx w)"
      by simp
    then show ?thesis
      by (simp add: scroll_loop_cancelled)
  next
    case False
    with c have nc: "ctx_Err ctx w = (False, w1)"
      by simp
    show ?thesis
    proof (cases r)
      case NoResponse
      with s have "send (ScrollReq scrollID (ScrollDuration cfg)) w1 = (NoResponse, w2)"
        by simp
      with nc have "scroll_loop ctx cfg scrollID w = (Inl (ScrollRequestFailed TransportError), w2)"
        by (simp add: scroll_loop_no_response)
      with "1.prems" l2 show ?thesis
        by simp
    next
      case (Response res)
      with s have sr: "send (ScrollReq scrollID (ScrollDuration cfg)) w1 = (Response res, w2)"
        by simp
      show ?thesis
      proof (cases "IsError res")
        case True
        with nc sr have "scroll_loop ctx cfg scrollID w = (Inl ScrollResponseError, w2)"
          by (simp add: scroll_loop_error_response)
        with "1.prems" l2 show ?thesis
          by simp
      next
        case ok: False
        show ?thesis
        proof (cases "parseSearchResponse res")
          case (Inl err)
          with nc sr ok have "scroll_loop ctx cfg scrollID w = (Inl err, w2)"
            by (subst scroll_loop.simps) simp
          with "1.prems" l2 show ?thesis
            by simp
        next
          case (Inr result)
          show ?thesis
          proof (cases "Hits result = []")
            case True
            with nc sr ok Inr have "scroll_loop ctx cfg scrollID w = (Inr scrollID, Println NoMoreHitsLine w2)"
              by (simp add: scroll_loop_empty)
            then show ?thesis
              by simp
          next
            case ne: False
            obtain x w3 where p: "processHits (Hits result) w2 = (x, w3)"
              by (cases "processHits (Hits result) w2")
            from p logged_processHits [of "Hits result" w2] l2 "1.prems"(1)
            have l3: "ContextCancelledLine \<notin> set (logged w3)"
              by auto
            show ?thesis
            proof (cases x)
              case (Some err)
              with nc sr ok Inr ne p have "scroll_loop ctx cfg scrollID w = (Inl err, w3)"
                by (subst scroll_loop.simps) simp
              with "1.prems" l3 show ?thesis
                by simp
            next
              case None
              with nc sr ok Inr ne p
              have e: "scroll_loop ctx cfg scrollID w = scroll_loop ctx cfg (ScrollID result) w3"
                by (simp add: scroll_loop_page)
              have "\<exists>held. fst (scroll_loop ctx cfg (ScrollID result) w3) = Inr held"
                using "1.IH" [of False w1 "Response res" w2 res result None w3]
                  nc sr ok Inr ne p None l3 "1.prems"(2) e
                by simp
              with e show ?thesis
                by simp
            qed
          qed
        qed
      qed
    qed
  qed
qed

lemma scroll_and_clear_cancel_logged:
  assumes "ContextCancelledLine \<notin> set (logged w)"
    and "ContextCancelledLine \<in> set (logged (snd (scroll_and_clear ctx cfg scrollID w)))"
  shows "fst (scroll_and_clear ctx cfg scrollID w) = None \<and>
         (\<exists>held. last (requests (snd (scroll_and_clear ctx cfg scrollID w))) = ClearScrollReq held)"
proof (cases "scroll_loop ctx cfg scrollID w")
  case (Pair x w1)
  show ?thesis
  proof (cases x)
    case (Inl err)
    with Pair have "scroll_and_clear ctx cfg scrollID w = (Some err, w1)"
      by (simp add: scroll_and_clear_def)
    with assms(2) have "ContextCancelledLine \<in> set (logged (snd (scroll_loop ctx cfg scrollID w)))"
      using Pair by simp
    with assms(1) have "\<exists>held. fst (scroll_loop ctx cfg scrollID w) = Inr held"
      by (rule scroll_loop_cancel_logged)
    with Pair Inl show ?thesis
      by simp
  next
    case (Inr held)
    with Pair have l: "scroll_loop ctx cfg scrollID w = (Inr held, w1)"
      by simp
    from scroll_and_clear_break [OF l] show ?thesis
      by auto
  qed
qed



end
